theory Spec2Isabelle
  imports Main
begin

section \<open>The Dialog bridge: data model\<close>

text \<open>
  The component verified here is the \<^verbatim>\<open>Dialog\<close> prototype of
  \<^verbatim>\<open>src/tasks/link-dependencies.js\<close> (lines 147 to 386): \<^verbatim>\<open>getDialogOptions\<close>
  (the specification's \<^verbatim>\<open>buildSpec\<close>), \<^verbatim>\<open>setDefaultPath\<close> and \<^verbatim>\<open>showDialog\<close>
  (the specification's \<^verbatim>\<open>invoke\<close>).

  JavaScript exceptions are values of the type \<open>error\<close>; each constructor stands for one
  place where the source can throw:
  \<^item> \<open>MissingOptionError\<close>: thrown by \<^verbatim>\<open>ensureOptions\<close>;
  \<^item> \<open>UnknownRequestTypeError\<close>: the \<^verbatim>\<open>TypeError\<close> of line 319,
    \<^verbatim>\<open>this._dialogs[type](opts)\<close>, when the table has no member \<^verbatim>\<open>type\<close> and
    \<^verbatim>\<open>undefined\<close> is called;
  \<^item> \<open>ButtonIndexError\<close>: the \<^verbatim>\<open>TypeError\<close> of line 370, \<^verbatim>\<open>buttons[result].id\<close>,
    when there is no button at the index the platform returned, or there are no buttons;
  \<^item> \<open>PathArgumentError\<close>: the \<^verbatim>\<open>TypeError\<close> of line 337, \<^verbatim>\<open>path.dirname(defaultPath)\<close>,
    when \<^verbatim>\<open>defaultPath\<close> is \<^verbatim>\<open>undefined\<close> (Node checks that the argument is a string);
  \<^item> \<open>InheritedMemberError\<close>: a \<^verbatim>\<open>TypeError\<close> thrown at line 319 by a function the table
    inherits from \<^verbatim>\<open>Object.prototype\<close>, when the request type names one;
  \<^item> \<open>UndefinedOptionsError\<close>: the \<^verbatim>\<open>TypeError\<close> of line 347, \<^verbatim>\<open>dialogOptions.buttons\<close>,
    when \<^verbatim>\<open>getDialogOptions\<close> returned \<^verbatim>\<open>undefined\<close>;
  \<^item> \<open>PrimitiveOptionsError\<close>: the \<^verbatim>\<open>TypeError\<close> of line 351, \<^verbatim>\<open>dialogOptions.noLink = true\<close>,
    when \<^verbatim>\<open>getDialogOptions\<close> returned a string or a boolean: the module is in strict mode
    (line 147), where a property cannot be created on a primitive.
\<close>

datatype error =
    MissingOptionError
  | UnknownRequestTypeError
  | ButtonIndexError
  | PathArgumentError
  | InheritedMemberError
  | UndefinedOptionsError
  | PrimitiveOptionsError

text \<open>A button of a message box, \<^verbatim>\<open>{ id: ..., label: ... }\<close>.\<close>

record button =
  id_button :: string
  label :: string

text \<open>
  The \<^verbatim>\<open>buttons\<close> property holds button objects when \<^verbatim>\<open>getDialogOptions\<close> returns, and
  the labels alone once \<^verbatim>\<open>showDialog\<close> has rewritten it (lines 353 to 357).
\<close>

datatype button_entries = Buttons "button list" | Labels "string list"

text \<open>
  The object a dialog builder returns. A property the object literal does not have is
  \<open>None\<close>. The type \<open>'f\<close> is the value \<^verbatim>\<open>filterExtensions\<close> returns; that helper
  (\<^verbatim>\<open>./util/filter-extensions\<close>) is not part of the sources, so it is a parameter of
  every function that needs it.
\<close>

record 'f dialog_options =
  title :: "string option"
  message :: "string option"
  detail :: "string option"
  type :: "string option"
  buttons :: "button_entries option"
  defaultPath :: "string option"
  properties :: "string list option"
  filters :: "'f option"
  noLink :: "bool option"

definition empty_object :: "'f dialog_options" where
  "empty_object =
     \<lparr>title = None, message = None, detail = None, type = None, buttons = None,
      defaultPath = None, properties = None, filters = None, noLink = None\<rparr>"

text \<open>
  The \<^verbatim>\<open>opts\<close> argument: an object with string properties. A call without options
  (\<^verbatim>\<open>opts\<close> undefined) is the empty map.
\<close>

type_synonym options = "string \<rightharpoonup> string"

text \<open>
  What \<^verbatim>\<open>showDialog\<close> returns and what \<^verbatim>\<open>setDefaultPath\<close> receives: \<^verbatim>\<open>undefined\<close>, a
  string (a button identifier or one path) or an array of paths.
\<close>

datatype result = Undefined | Str string | Arr "string list"

text \<open>JavaScript truthiness of such a value: an array is truthy, also when empty.\<close>

fun truthy :: "result \<Rightarrow> bool" where
  "truthy Undefined = False"
| "truthy (Str s) = (s \<noteq> [])"
| "truthy (Arr _) = True"

text \<open>
  The table \<^verbatim>\<open>this._dialogs\<close>: its own members, the builders by name in the order of the
  literal, and the \<^verbatim>\<open>noLink\<close> property, which the literal does not have and which
  \<^verbatim>\<open>showDialog\<close> writes when the table itself comes back as the dialog options.
\<close>

type_synonym 'f dialogs_table = "(string \<times> (options \<Rightarrow> error + 'f dialog_options)) list"

record 'f dialogs_object =
  members :: "'f dialogs_table"
  table_noLink :: "bool option"

text \<open>
  The values the call of line 319, \<^verbatim>\<open>this._dialogs[type](opts)\<close>, can return, and so the
  values \<^verbatim>\<open>showDialog\<close> works on: an object a builder built; the options object itself
  (from \<^verbatim>\<open>Object(opts)\<close>), with its properties; the table itself; a string, a boolean or
  \<^verbatim>\<open>undefined\<close>. A property of the options object is one of its strings, or what
  \<^verbatim>\<open>showDialog\<close> writes there: a boolean, or an array of so many \<^verbatim>\<open>undefined\<close>.
\<close>

datatype property = Text string | Flag bool | Holes nat

datatype 'f js_value =
    Built "'f dialog_options"
  | OptionsObject "string \<rightharpoonup> property"
  | DialogsObject "'f dialogs_object"
  | StringValue string
  | BooleanValue bool
  | UndefinedValue

text \<open>The \<^verbatim>\<open>noLink\<close> property of such a value, when it is an object that has one.\<close>

fun noLink_of :: "'f js_value \<Rightarrow> bool option" where
  "noLink_of (Built built) = noLink built"
| "noLink_of (OptionsObject object) = (case object ''noLink'' of Some (Flag b) \<Rightarrow> Some b | _ \<Rightarrow> None)"
| "noLink_of (DialogsObject table) = table_noLink table"
| "noLink_of _ = None"

text \<open>
  The platform dialog primitives (\<^verbatim>\<open>options.dialog\<close>), as the specification's section 6
  gives them: \<^verbatim>\<open>showMessageBox\<close> returns a button index, \<^verbatim>\<open>showOpenDialog\<close> an array of
  paths or \<^verbatim>\<open>undefined\<close>, \<^verbatim>\<open>showSaveDialog\<close> a path or \<^verbatim>\<open>undefined\<close>.
\<close>

record 'f native_dialog =
  showMessageBox :: "'f js_value \<Rightarrow> int"
  showOpenDialog :: "'f js_value \<Rightarrow> string list option"
  showSaveDialog :: "'f js_value \<Rightarrow> string option"

datatype 'f native_call =
    ShowMessageBox "'f js_value"
  | ShowOpenDialog "'f js_value"
  | ShowSaveDialog "'f js_value"

fun call_options :: "'f native_call \<Rightarrow> 'f js_value" where
  "call_options (ShowMessageBox dialogOptions) = dialogOptions"
| "call_options (ShowOpenDialog dialogOptions) = dialogOptions"
| "call_options (ShowSaveDialog dialogOptions) = dialogOptions"

text \<open>
  A \<^verbatim>\<open>Dialog\<close> instance together with what it refers to: the platform primitives
  \<open>dialog\<close>, the contents of the configuration store \<open>config\<close>, \<open>userDesktopPath\<close>,
  the instance properties \<^verbatim>\<open>this.defaultPath\<close> and \<^verbatim>\<open>this._dialogs\<close> (both
  \<^verbatim>\<open>undefined\<close>, that is \<open>None\<close>, after construction), and the history \<open>calls\<close> of the
  platform primitives invoked so far, oldest first.
\<close>

record 'f Dialog =
  dialog :: "'f native_dialog"
  config :: "string \<rightharpoonup> string"
  userDesktopPath :: string
  this_defaultPath :: "string option"
  dialogs :: "'f dialogs_object option"
  calls :: "'f native_call list"

text \<open>
  Modelled from the spec: the configuration store (\<^verbatim>\<open>options.config\<close>) is not part of
  the sources. The specification's section 6 gives it as \<^verbatim>\<open>get(key, default) -> value\<close>
  and \<^verbatim>\<open>set(key, value)\<close>.
\<close>

definition config_get :: "(string \<rightharpoonup> string) \<Rightarrow> string \<Rightarrow> string \<Rightarrow> string" where
  "config_get store key fallback = (case store key of None \<Rightarrow> fallback | Some v \<Rightarrow> v)"

definition config_set :: "(string \<rightharpoonup> string) \<Rightarrow> string \<Rightarrow> string \<Rightarrow> (string \<rightharpoonup> string)" where
  "config_set store key v = store(key \<mapsto> v)"

section \<open>Helpers\<close>

text \<open>
  Modelled from the spec: \<^verbatim>\<open>ensureOptions\<close> (\<^verbatim>\<open>./util/ensure-opts\<close>) is not part of the
  sources. The specification says that a request fails with \<^verbatim>\<open>MissingOptionError\<close> when a
  required field is absent; the fields are checked in the order of the list.
\<close>

fun ensureOptions :: "string list \<Rightarrow> options \<Rightarrow> error + unit" where
  "ensureOptions [] options = Inr ()"
| "ensureOptions (key # expected) options =
     (case options key of
        None \<Rightarrow> Inl MissingOptionError
      | Some _ \<Rightarrow> ensureOptions expected options)"

text \<open>
  Reading a property for a string concatenation (\<^verbatim>\<open>'...' + options.name\<close>): an absent
  property concatenates as \<^verbatim>\<open>undefined\<close>. As an element of an array that is joined, an
  absent property is the empty string. Every property a builder reads it has passed to
  \<^verbatim>\<open>ensureOptions\<close> first, so no builder reaches the absent case.
\<close>

definition concat_prop :: "options \<Rightarrow> string \<Rightarrow> string" where
  "concat_prop options key = (case options key of None \<Rightarrow> ''undefined'' | Some v \<Rightarrow> v)"

definition join_prop :: "options \<Rightarrow> string \<Rightarrow> string" where
  "join_prop options key = (case options key of None \<Rightarrow> [] | Some v \<Rightarrow> v)"

fun join :: "string \<Rightarrow> string list \<Rightarrow> string" where
  "join sep [] = []"
| "join sep [x] = x"
| "join sep (x # y # ys) = x @ sep @ join sep (y # ys)"

section \<open>The dialog builders\<close>

text \<open>
  One definition for each member of the object literal of lines 180 to 317. The builders
  \<open>dialogs_open\<close> and \<open>dialogs_save\<close> close over the local \<^verbatim>\<open>defaultPath\<close> of
  \<^verbatim>\<open>getDialogOptions\<close>.
\<close>

definition dialogs_contentChanged :: "options \<Rightarrow> error + 'f dialog_options" where
  "dialogs_contentChanged options =
     Inr (empty_object
       \<lparr>title := Some ''File changed'',
        message := Some ''The file has been changed externally.\<newline>Would you like to reload it?'',
        type := Some ''question'',
        buttons := Some (Buttons [
          \<lparr>id_button = ''ok'', label = ''Reload''\<rparr>,
          \<lparr>id_button = ''cancel'', label = ''Cancel''\<rparr>])\<rparr>)"

definition dialogs_open :: "(string list \<Rightarrow> 'f) \<Rightarrow> string \<Rightarrow> options \<Rightarrow> error + 'f dialog_options" where
  "dialogs_open filterExtensions path options =
     Inr (empty_object
       \<lparr>title := Some ''Open diagram'',
        defaultPath := Some path,
        properties := Some [''openFile'', ''multiSelections''],
        filters := Some (filterExtensions [''supported'', ''bpmn'', ''dmn'', ''cmmn'', ''all''])\<rparr>)"

definition dialogs_save :: "(string list \<Rightarrow> 'f) \<Rightarrow> string \<Rightarrow> options \<Rightarrow> error + 'f dialog_options" where
  "dialogs_save filterExtensions path options =
     (case ensureOptions [''name'', ''fileType''] options of
        Inl e \<Rightarrow> Inl e
      | Inr _ \<Rightarrow>
          Inr (empty_object
            \<lparr>title := Some (''Save '' @ concat_prop options ''name'' @ '' as..''),
             defaultPath := Some (path @ ''/'' @ concat_prop options ''name''),
             filters := Some (filterExtensions [concat_prop options ''fileType'', ''all''])\<rparr>))"

definition dialogs_close :: "options \<Rightarrow> error + 'f dialog_options" where
  "dialogs_close options =
     (case ensureOptions [''name''] options of
        Inl e \<Rightarrow> Inl e
      | Inr _ \<Rightarrow>
          Inr (empty_object
            \<lparr>title := Some ''Close diagram'',
             message := Some (''Save changes to '' @ concat_prop options ''name'' @ '' before closing?''),
             type := Some ''question'',
             buttons := Some (Buttons [
               \<lparr>id_button = ''cancel'', label = ''Cancel''\<rparr>,
               \<lparr>id_button = ''save'', label = ''Save''\<rparr>,
               \<lparr>id_button = ''discard'', label = ''Don't Save''\<rparr>])\<rparr>))"

definition dialogs_importError :: "options \<Rightarrow> error + 'f dialog_options" where
  "dialogs_importError options =
     (case ensureOptions [''name'', ''errorDetails''] options of
        Inl e \<Rightarrow> Inl e
      | Inr _ \<Rightarrow>
          Inr (empty_object
            \<lparr>type := Some ''error'',
             title := Some ''Importing Error'',
             buttons := Some (Buttons [
               \<lparr>id_button = ''cancel'', label = ''Close''\<rparr>,
               \<lparr>id_button = ''ask-forum'', label = ''Ask in Forum''\<rparr>]),
             message := Some ''Ooops, we could not display this diagram!'',
             detail := Some (join ''\<newline>'' [
               join_prop options ''errorDetails'',
               '''',
               ''Do you believe \"'' @ concat_prop options ''name'' @ ''\" is valid BPMN or DMN diagram?'',
               '''',
               ''Post this error with your diagram in our forum for help.''])\<rparr>))"

definition dialogs_unrecognizedFile :: "options \<Rightarrow> error + 'f dialog_options" where
  "dialogs_unrecognizedFile options =
     (case ensureOptions [''name''] options of
        Inl e \<Rightarrow> Inl e
      | Inr _ \<Rightarrow>
          Inr (empty_object
            \<lparr>type := Some ''warning'',
             title := Some ''Unrecognized file format'',
             buttons := Some (Buttons [
               \<lparr>id_button = ''cancel'', label = ''Close''\<rparr>]),
             message := Some (''The file \"'' @ concat_prop options ''name'' @ ''\" is not a BPMN or DMN file.'')\<rparr>))"

definition dialogs_existingFile :: "options \<Rightarrow> error + 'f dialog_options" where
  "dialogs_existingFile options =
     (case ensureOptions [''name''] options of
        Inl e \<Rightarrow> Inl e
      | Inr _ \<Rightarrow>
          Inr (empty_object
            \<lparr>type := Some ''warning'',
             title := Some ''Existing file'',
             buttons := Some (Buttons [
               \<lparr>id_button = ''cancel'', label = ''Cancel''\<rparr>,
               \<lparr>id_button = ''no-overwrite'', label = ''No''\<rparr>,
               \<lparr>id_button = ''overwrite'', label = ''Overwrite''\<rparr>]),
             message := Some (''The file \"'' @ concat_prop options ''name''
               @ ''\" already exists. Do you want to overwrite it?'')\<rparr>))"

definition dialogs_reimportWarning :: "options \<Rightarrow> error + 'f dialog_options" where
  "dialogs_reimportWarning options =
     Inr (empty_object
       \<lparr>type := Some ''warning'',
        title := Some ''Import warning'',
        buttons := Some (Buttons [
          \<lparr>id_button = ''cancel'', label = ''Cancel''\<rparr>,
          \<lparr>id_button = ''switch'', label = ''Switch''\<rparr>,
          \<lparr>id_button = ''discard'', label = ''Discard changes''\<rparr>]),
        message := Some (join ''\<newline>'' [
          ''Your diagram's undo history will be lost due to xml changes.'',
          '''',
          ''Do you want to proceed?''])\<rparr>)"

definition dialogs_namespace :: "options \<Rightarrow> error + 'f dialog_options" where
  "dialogs_namespace options =
     Inr (empty_object
       \<lparr>type := Some ''warning'',
        title := Some ''Deprecated <activiti> namespace detected'',
        buttons := Some (Buttons [
          \<lparr>id_button = ''cancel'', label = ''Cancel''\<rparr>,
          \<lparr>id_button = ''no'', label = ''No''\<rparr>,
          \<lparr>id_button = ''yes'', label = ''Yes''\<rparr>]),
        message := Some ''Would you like to convert your diagram to the <camunda> namespace?'',
        detail := Some (join ''\<newline>'' [
          ''This will allow you to maintain execution related properties.'',
          '''',
          ''<camunda> namespace support works from Camunda BPM versions 7.4.0, 7.3.3, 7.2.6 onwards.''])\<rparr>)"

definition dialogs_savingDenied :: "options \<Rightarrow> error + 'f dialog_options" where
  "dialogs_savingDenied options =
     Inr (empty_object
       \<lparr>type := Some ''warning'',
        title := Some ''Cannot save file'',
        buttons := Some (Buttons [
          \<lparr>id_button = ''cancel'', label = ''Cancel''\<rparr>,
          \<lparr>id_button = ''save-as'', label = ''Save File as..''\<rparr>]),
        message := Some (join ''\<newline>'' [
          ''We cannot save or overwrite the current file.'',
          ''Do you want to save the file as.. ?''])\<rparr>)"

text \<open>The object literal assigned to \<^verbatim>\<open>this._dialogs\<close> (lines 180 to 317).\<close>

definition new_dialogs :: "(string list \<Rightarrow> 'f) \<Rightarrow> string \<Rightarrow> 'f dialogs_object" where
  "new_dialogs filterExtensions path =
     \<lparr>members =
        [(''contentChanged'', dialogs_contentChanged),
         (''open'', dialogs_open filterExtensions path),
         (''save'', dialogs_save filterExtensions path),
         (''close'', dialogs_close),
         (''importError'', dialogs_importError),
         (''unrecognizedFile'', dialogs_unrecognizedFile),
         (''existingFile'', dialogs_existingFile),
         (''reimportWarning'', dialogs_reimportWarning),
         (''namespace'', dialogs_namespace),
         (''savingDenied'', dialogs_savingDenied)],
      table_noLink = None\<rparr>"

section \<open>The members the table inherits\<close>

text \<open>
  The table is an object literal, so the member lookup of line 319 also finds what every
  object inherits from \<^verbatim>\<open>Object.prototype\<close>. These are the functions among them, each as
  what the call \<^verbatim>\<open>this._dialogs[type](opts)\<close> does: the receiver is the table, the one
  argument the options.
  \<^item> \<^verbatim>\<open>constructor\<close> is \<^verbatim>\<open>Object\<close>, and \<^verbatim>\<open>Object(opts)\<close> is the options object itself
    (a new empty object when there are no options);
  \<^item> \<^verbatim>\<open>valueOf\<close> returns its receiver, the table;
  \<^item> \<^verbatim>\<open>toString\<close> and \<^verbatim>\<open>toLocaleString\<close> return the string \<^verbatim>\<open>[object Object]\<close>;
  \<^item> \<^verbatim>\<open>isPrototypeOf\<close> returns \<^verbatim>\<open>false\<close>: the table is no prototype of the options;
  \<^item> \<^verbatim>\<open>hasOwnProperty\<close> and \<^verbatim>\<open>propertyIsEnumerable\<close> turn the options into a property
    key and return \<^verbatim>\<open>false\<close>, the table having no such key; \<^verbatim>\<open>__lookupGetter__\<close> and
    \<^verbatim>\<open>__lookupSetter__\<close> do the same and return \<^verbatim>\<open>undefined\<close>;
  \<^item> \<^verbatim>\<open>__defineGetter__\<close> and \<^verbatim>\<open>__defineSetter__\<close> throw, their second argument being no
    function.
  The inherited \<^verbatim>\<open>__proto__\<close> is an object and no function, so calling it throws as calling
  \<^verbatim>\<open>undefined\<close> does: it is not listed.

  Turning the options into a property key calls their \<^verbatim>\<open>toString\<close>, which gives
  \<^verbatim>\<open>[object Object]\<close> (the key is \<^verbatim>\<open>undefined\<close> when there are no options: the table has
  neither key, and the key itself is not used); options that have a string of their own under \<^verbatim>\<open>toString\<close> cannot
  be converted, and the conversion throws.
\<close>

definition to_property_key :: "options \<Rightarrow> error + string" where
  "to_property_key opts =
     (case opts ''toString'' of
        None \<Rightarrow> Inr ''[object Object]''
      | Some _ \<Rightarrow> Inl InheritedMemberError)"

definition Object_prototype ::
  "(string \<times> ('f dialogs_object \<Rightarrow> options \<Rightarrow> error + 'f js_value)) list" where
  "Object_prototype =
     [(''constructor'', \<lambda>table opts. Inr (OptionsObject (\<lambda>key. map_option Text (opts key)))),
      (''valueOf'', \<lambda>table opts. Inr (DialogsObject table)),
      (''toString'', \<lambda>table opts. Inr (StringValue ''[object Object]'')),
      (''toLocaleString'', \<lambda>table opts. Inr (StringValue ''[object Object]'')),
      (''isPrototypeOf'', \<lambda>table opts. Inr (BooleanValue False)),
      (''hasOwnProperty'', \<lambda>table opts.
         case to_property_key opts of Inl e \<Rightarrow> Inl e | Inr key \<Rightarrow> Inr (BooleanValue False)),
      (''propertyIsEnumerable'', \<lambda>table opts.
         case to_property_key opts of Inl e \<Rightarrow> Inl e | Inr key \<Rightarrow> Inr (BooleanValue False)),
      (''__lookupGetter__'', \<lambda>table opts.
         case to_property_key opts of Inl e \<Rightarrow> Inl e | Inr key \<Rightarrow> Inr UndefinedValue),
      (''__lookupSetter__'', \<lambda>table opts.
         case to_property_key opts of Inl e \<Rightarrow> Inl e | Inr key \<Rightarrow> Inr UndefinedValue),
      (''__defineGetter__'', \<lambda>table opts. Inl InheritedMemberError),
      (''__defineSetter__'', \<lambda>table opts. Inl InheritedMemberError)]"

section \<open>The methods\<close>

text \<open>
  \<^verbatim>\<open>Dialog.prototype.getDialogOptions\<close> (lines 173 to 320): reads the stored default
  path, assigns a fresh table to \<^verbatim>\<open>this._dialogs\<close> and calls the member \<^verbatim>\<open>type\<close>: a
  builder of the table, or else a function the table inherits; when there is neither, the
  call throws.
\<close>

definition getDialogOptions ::
  "(string list \<Rightarrow> 'f) \<Rightarrow> 'f Dialog \<Rightarrow> string \<Rightarrow> options \<Rightarrow> (error + 'f js_value) \<times> 'f Dialog" where
  "getDialogOptions filterExtensions this requestType opts =
     (let path = config_get (config this) ''defaultPath'' (userDesktopPath this);
          table = new_dialogs filterExtensions path;
          this1 = this\<lparr>dialogs := Some table\<rparr>
      in case map_of (members table) requestType of
           Some builder \<Rightarrow>
             (case builder opts of Inl e \<Rightarrow> Inl e | Inr built \<Rightarrow> Inr (Built built), this1)
         | None \<Rightarrow>
             (case map_of Object_prototype requestType of
                Some inherited \<Rightarrow> (inherited table opts, this1)
              | None \<Rightarrow> (Inl UnknownRequestTypeError, this1)))"

text \<open>
  \<^verbatim>\<open>Dialog.prototype.setDefaultPath\<close> (lines 322 to 342). \<open>dirname\<close> is Node's
  \<^verbatim>\<open>path.dirname\<close> on strings. The method returns \<^verbatim>\<open>this.defaultPath\<close> from the guard of
  line 333 and \<^verbatim>\<open>undefined\<close> otherwise.
\<close>

definition setDefaultPath ::
  "(string \<Rightarrow> string) \<Rightarrow> 'f Dialog \<Rightarrow> result \<Rightarrow> (error + string option) \<times> 'f Dialog" where
  "setDefaultPath dirname this filenames =
     (let path = (case filenames of
                    Arr fs \<Rightarrow> (case fs of [] \<Rightarrow> None | f # _ \<Rightarrow> Some f)
                  | Str f \<Rightarrow> Some f
                  | Undefined \<Rightarrow> None)
      in if this_defaultPath this \<noteq> None \<and> this_defaultPath this \<noteq> Some [] \<and> this_defaultPath this = path
         then (Inr (this_defaultPath this), this)
         else case path of
                None \<Rightarrow> (Inl PathArgumentError, this)
              | Some p \<Rightarrow>
                  (Inr None,
                   this\<lparr>config := config_set (config this) ''defaultPath'' (dirname p),
                        this_defaultPath := Some (dirname p)\<rparr>))"

text \<open>The button at the index the message box returned, \<^verbatim>\<open>buttons[result]\<close>.\<close>

definition button_at :: "button_entries option \<Rightarrow> int \<Rightarrow> button option" where
  "button_at btns i =
     (case btns of
        Some (Buttons bs) \<Rightarrow> (if 0 \<le> i \<and> nat i < length bs then Some (bs ! nat i) else None)
      | _ \<Rightarrow> None)"

text \<open>
  The local \<^verbatim>\<open>buttons\<close> of line 347: the \<^verbatim>\<open>buttons\<close> property of a built object, that of
  the options object (a string when it has one), or nothing.
\<close>

datatype captured = BuiltButtons "button_entries option" | OptionsButtons "property option" | NoButtons

text \<open>
  Lines 347 to 357 on the value \<^verbatim>\<open>getDialogOptions\<close> returned: read \<^verbatim>\<open>buttons\<close>, set
  \<^verbatim>\<open>noLink\<close>, and replace truthy buttons by what \<^verbatim>\<open>map\<close> makes of them. For an array of
  buttons these are the labels; for a string that is not empty, an \<^verbatim>\<open>undefined\<close> for each
  character, a character having no \<^verbatim>\<open>label\<close>.
\<close>

fun prepare :: "'f js_value \<Rightarrow> error + captured \<times> 'f js_value" where
  "prepare (Built built) =
     (let btns = buttons built;
          linked = built\<lparr>noLink := Some True\<rparr>;
          dialogOptions =
            (case btns of
               Some (Buttons bs) \<Rightarrow> linked\<lparr>buttons := Some (Labels (map label bs))\<rparr>
             | _ \<Rightarrow> linked)
      in Inr (BuiltButtons btns, Built dialogOptions))"
| "prepare (OptionsObject object) =
     (let btns = object ''buttons'';
          linked = object(''noLink'' \<mapsto> Flag True);
          dialogOptions =
            (case btns of
               Some (Text s) \<Rightarrow> (if s \<noteq> [] then linked(''buttons'' \<mapsto> Holes (length s)) else linked)
             | _ \<Rightarrow> linked)
      in Inr (OptionsButtons btns, OptionsObject dialogOptions))"
| "prepare (DialogsObject table) = Inr (NoButtons, DialogsObject (table\<lparr>table_noLink := Some True\<rparr>))"
| "prepare (StringValue s) = Inl PrimitiveOptionsError"
| "prepare (BooleanValue b) = Inl PrimitiveOptionsError"
| "prepare UndefinedValue = Inl UndefinedOptionsError"

text \<open>
  Line 370, \<^verbatim>\<open>buttons[result].id\<close>: the identifier of the button at the index; for a string,
  the \<^verbatim>\<open>id\<close> of the character at the index, which is \<^verbatim>\<open>undefined\<close>. Where there is
  nothing at the index, the read throws.
\<close>

fun id_at :: "captured \<Rightarrow> int \<Rightarrow> error + result" where
  "id_at (BuiltButtons btns) i =
     (case button_at btns i of
        None \<Rightarrow> Inl ButtonIndexError
      | Some b \<Rightarrow> Inr (Str (id_button b)))"
| "id_at (OptionsButtons btns) i =
     (case btns of
        Some (Text s) \<Rightarrow> (if 0 \<le> i \<and> nat i < length s then Inr Undefined else Inl ButtonIndexError)
      | _ \<Rightarrow> Inl ButtonIndexError)"
| "id_at NoButtons i = Inl ButtonIndexError"

text \<open>
  When the dialog options are the table, they are the object \<^verbatim>\<open>this._dialogs\<close> refers to,
  and what line 351 wrote is on that object.
\<close>

fun written_through :: "'f js_value \<Rightarrow> 'f Dialog \<Rightarrow> 'f Dialog" where
  "written_through (DialogsObject table) this = this\<lparr>dialogs := Some table\<rparr>"
| "written_through _ this = this"

text \<open>\<^verbatim>\<open>Dialog.prototype.showDialog\<close> (lines 344 to 379).\<close>

definition showDialog ::
  "(string list \<Rightarrow> 'f) \<Rightarrow> (string \<Rightarrow> string) \<Rightarrow> 'f Dialog \<Rightarrow> string \<Rightarrow> options \<Rightarrow> (error + result) \<times> 'f Dialog" where
  "showDialog filterExtensions dirname this requestType opts =
     (case getDialogOptions filterExtensions this requestType opts of
        (Inl e, this0) \<Rightarrow> (Inl e, this0)
      | (Inr returned, this0) \<Rightarrow>
          (case prepare returned of
             Inl e \<Rightarrow> (Inl e, this0)
           | Inr (btns, dialogOptions) \<Rightarrow>
               (let this1 = written_through dialogOptions this0;
                    (shown, this2) =
                      (if requestType = ''open'' then
                         (Inr (case showOpenDialog (dialog this1) dialogOptions of
                                 None \<Rightarrow> Undefined | Some fs \<Rightarrow> Arr fs),
                          this1\<lparr>calls := calls this1 @ [ShowOpenDialog dialogOptions]\<rparr>)
                       else if requestType = ''save'' then
                         (Inr (case showSaveDialog (dialog this1) dialogOptions of
                                 None \<Rightarrow> Undefined | Some f \<Rightarrow> Str f),
                          this1\<lparr>calls := calls this1 @ [ShowSaveDialog dialogOptions]\<rparr>)
                       else
                         (id_at btns (showMessageBox (dialog this1) dialogOptions),
                          this1\<lparr>calls := calls this1 @ [ShowMessageBox dialogOptions]\<rparr>))
                in case shown of
                     Inl e \<Rightarrow> (Inl e, this2)
                   | Inr res \<Rightarrow>
                       (if truthy res \<and> (requestType = ''open'' \<or> requestType = ''save'') then
                          (case setDefaultPath dirname this2 res of
                             (Inl e, this3) \<Rightarrow> (Inl e, this3)
                           | (Inr _, this3) \<Rightarrow> (Inr res, this3))
                        else (Inr res, this2)))))"

text \<open>
  The constructor (lines 161 to 168): the three options it ensures are its arguments here,
  and the instance has shown no dialog yet.
\<close>

definition new_Dialog :: "'f native_dialog \<Rightarrow> (string \<rightharpoonup> string) \<Rightarrow> string \<Rightarrow> 'f Dialog" where
  "new_Dialog d store desktop =
     \<lparr>dialog = d, config = store, userDesktopPath = desktop,
      this_defaultPath = None, dialogs = None, calls = []\<rparr>"

section \<open>The request kinds of the specification\<close>

text \<open>
  The request kinds, under the names the table gives them (the specification's
  \<^verbatim>\<open>content-changed\<close> is \<^verbatim>\<open>contentChanged\<close>, its \<^verbatim>\<open>namespace-conversion\<close> is
  \<^verbatim>\<open>namespace\<close>, and so on).
\<close>

definition dialog_kinds :: "string list" where
  "dialog_kinds =
     [''contentChanged'', ''open'', ''save'', ''close'', ''importError'', ''unrecognizedFile'',
      ''existingFile'', ''reimportWarning'', ''namespace'', ''savingDenied'']"

text \<open>The default path a request is seeded with: \<^verbatim>\<open>config.get('defaultPath', userDesktopPath)\<close>.\<close>

definition stored_defaultPath :: "'f Dialog \<Rightarrow> string" where
  "stored_defaultPath this = config_get (config this) ''defaultPath'' (userDesktopPath this)"

text \<open>The option fields each kind requires; a kind that is not listed requires none.\<close>

definition required_options :: "string \<Rightarrow> string list" where
  "required_options kind =
     (case map_of
        [(''save'', [''name'', ''fileType'']),
         (''close'', [''name'']),
         (''importError'', [''name'', ''errorDetails'']),
         (''unrecognizedFile'', [''name'']),
         (''existingFile'', [''name''])] kind of
        None \<Rightarrow> []
      | Some required \<Rightarrow> required)"

text \<open>The button identifiers of each message-box kind, in their fixed order.\<close>

definition documented_button_ids :: "(string \<times> string list) list" where
  "documented_button_ids =
     [(''contentChanged'', [''ok'', ''cancel'']),
      (''close'', [''cancel'', ''save'', ''discard'']),
      (''importError'', [''cancel'', ''ask-forum'']),
      (''unrecognizedFile'', [''cancel'']),
      (''existingFile'', [''cancel'', ''no-overwrite'', ''overwrite'']),
      (''reimportWarning'', [''cancel'', ''switch'', ''discard'']),
      (''namespace'', [''cancel'', ''no'', ''yes'']),
      (''savingDenied'', [''cancel'', ''save-as''])]"

text \<open>A result is a built object whose buttons carry the identifiers \<open>ids\<close>, in that order.\<close>

definition has_button_ids :: "error + 'f js_value \<Rightarrow> string list \<Rightarrow> bool" where
  "has_button_ids r ids =
     (case r of
        Inr (Built built) \<Rightarrow>
          (case buttons built of
             Some (Buttons bs) \<Rightarrow> map id_button bs = ids
           | _ \<Rightarrow> False)
      | _ \<Rightarrow> False)"

text \<open>
  The object \<^verbatim>\<open>showDialog\<close> hands to the platform for a built object: \<^verbatim>\<open>noLink\<close> set,
  the buttons replaced by their labels. \<open>handed\<close> is what it hands over for any value
  \<^verbatim>\<open>getDialogOptions\<close> returned, when it gets as far as a primitive.
\<close>

definition handed_over :: "'f dialog_options \<Rightarrow> 'f dialog_options" where
  "handed_over built =
     (case buttons built of
        Some (Buttons bs) \<Rightarrow> built\<lparr>noLink := Some True, buttons := Some (Labels (map label bs))\<rparr>
      | _ \<Rightarrow> built\<lparr>noLink := Some True\<rparr>)"

definition handed :: "'f js_value \<Rightarrow> 'f js_value option" where
  "handed returned = (case prepare returned of Inl e \<Rightarrow> None | Inr (btns, dialogOptions) \<Rightarrow> Some dialogOptions)"

text \<open>The names of the functions the table inherits.\<close>

definition inherited_functions :: "string list" where
  "inherited_functions =
     [''constructor'', ''valueOf'', ''toString'', ''toLocaleString'', ''isPrototypeOf'',
      ''hasOwnProperty'', ''propertyIsEnumerable'', ''__lookupGetter__'', ''__lookupSetter__'',
      ''__defineGetter__'', ''__defineSetter__'']"

text \<open>The path \<^verbatim>\<open>setDefaultPath\<close> looks at: the string itself, or the first of an array.\<close>

fun first_path :: "result \<Rightarrow> string option" where
  "first_path Undefined = None"
| "first_path (Str f) = Some f"
| "first_path (Arr []) = None"
| "first_path (Arr (f # fs)) = Some f"

section \<open>Node's \<^verbatim>\<open>path.dirname\<close> on POSIX, for the examples\<close>

text \<open>
  The loop of \<^verbatim>\<open>path.posix.dirname\<close>: from the last character down to index 1, skip the
  trailing slashes, then stop at the first slash that follows a character that is none.
\<close>

fun dirname_end :: "string \<Rightarrow> nat \<Rightarrow> bool \<Rightarrow> nat option" where
  "dirname_end path 0 matchedSlash = None"
| "dirname_end path (Suc i) matchedSlash =
     (if path ! Suc i = CHR ''/'' then
        (if \<not> matchedSlash then Some (Suc i) else dirname_end path i matchedSlash)
      else dirname_end path i False)"

definition posix_dirname :: "string \<Rightarrow> string" where
  "posix_dirname path =
     (if path = [] then ''.''
      else case dirname_end path (length path - 1) True of
             None \<Rightarrow> (if hd path = CHR ''/'' then ''/'' else ''.'')
           | Some e \<Rightarrow> (if hd path = CHR ''/'' \<and> e = 1 then ''//'' else take e path))"

section \<open>Concrete instances for the examples\<close>

text \<open>
  A platform whose message box answers with button 1, whose open dialog returns two
  files and whose save dialog returns one; and a platform on which the user cancels.
\<close>

definition example_dialog :: "string list native_dialog" where
  "example_dialog =
     \<lparr>showMessageBox = (\<lambda>_. 1),
      showOpenDialog = (\<lambda>_. Some [''/home/user/a.bpmn'', ''/srv/other/b.dmn'']),
      showSaveDialog = (\<lambda>_. Some ''/home/user/foo.bpmn'')\<rparr>"

definition cancelling_dialog :: "string list native_dialog" where
  "cancelling_dialog =
     \<lparr>showMessageBox = (\<lambda>_. 0),
      showOpenDialog = (\<lambda>_. None),
      showSaveDialog = (\<lambda>_. None)\<rparr>"

definition example_Dialog :: "string list Dialog" where
  "example_Dialog = new_Dialog example_dialog Map.empty ''/home/user/Desktop''"

definition cancelling_Dialog :: "string list Dialog" where
  "cancelling_Dialog = new_Dialog cancelling_dialog Map.empty ''/home/user/Desktop''"

text \<open>
  A platform whose save dialog, seeded with \<^verbatim>\<open>/home/user/Desktop/x.bpmn\<close>, returns
  \<^verbatim>\<open>/tmp/a/x.bpmn\<close>, and seeded with anything else returns the path \<^verbatim>\<open>/tmp/a\<close>; its open
  dialog returns \<^verbatim>\<open>/tmp/a\<close> and a second file. \<open>revisiting_Dialog\<close> is a new instance
  on that platform after it has once saved \<^verbatim>\<open>x.bpmn\<close>.
\<close>

definition revisiting_dialog :: "string list native_dialog" where
  "revisiting_dialog =
     \<lparr>showMessageBox = (\<lambda>_. 0),
      showOpenDialog = (\<lambda>_. Some [''/tmp/a'', ''/srv/other/b.dmn'']),
      showSaveDialog = (\<lambda>dialogOptions.
         case dialogOptions of
           Built d \<Rightarrow> (if defaultPath d = Some ''/home/user/Desktop/x.bpmn''
                       then Some ''/tmp/a/x.bpmn'' else Some ''/tmp/a'')
         | _ \<Rightarrow> Some ''/tmp/a'')\<rparr>"

definition revisiting_Dialog :: "string list Dialog" where
  "revisiting_Dialog =
     snd (showDialog (\<lambda>exts. exts) posix_dirname
            (new_Dialog revisiting_dialog Map.empty ''/home/user/Desktop'')
            ''save'' [''name'' \<mapsto> ''x.bpmn'', ''fileType'' \<mapsto> ''bpmn''])"

text \<open>The platform primitive \<^verbatim>\<open>showDialog\<close> invokes for a request type (lines 359 to 367).\<close>

definition primitive_for :: "string \<Rightarrow> 'f js_value \<Rightarrow> 'f native_call" where
  "primitive_for requestType dialogOptions =
     (if requestType = ''open'' then ShowOpenDialog dialogOptions
      else if requestType = ''save'' then ShowSaveDialog dialogOptions
      else ShowMessageBox dialogOptions)"

section \<open>Facts about the methods\<close>

lemma map_of_new_dialogs_unknown:
  "t \<notin> set dialog_kinds \<Longrightarrow> map_of (members (new_dialogs fe p)) t = None"
  by (simp add: dialog_kinds_def new_dialogs_def)

lemma new_dialogs_keys: "map fst (members (new_dialogs fe p)) = dialog_kinds"
  by (simp add: dialog_kinds_def new_dialogs_def)

lemma getDialogOptions_snd:
  "snd (getDialogOptions fe this t opts) = this\<lparr>dialogs := Some (new_dialogs fe (stored_defaultPath this))\<rparr>"
  by (simp add: getDialogOptions_def stored_defaultPath_def Let_def split: option.split)

lemma getDialogOptions_fst:
  "fst (getDialogOptions fe this t opts) =
     (case map_of (members (new_dialogs fe (stored_defaultPath this))) t of
        Some builder \<Rightarrow> (case builder opts of Inl e \<Rightarrow> Inl e | Inr built \<Rightarrow> Inr (Built built))
      | None \<Rightarrow>
          (case map_of Object_prototype t of
             Some inherited \<Rightarrow> inherited (new_dialogs fe (stored_defaultPath this)) opts
           | None \<Rightarrow> Inl UnknownRequestTypeError))"
  by (simp add: getDialogOptions_def stored_defaultPath_def Let_def split: option.split)

lemma getDialogOptions_pair:
  "getDialogOptions fe this t opts =
     (fst (getDialogOptions fe this t opts),
      this\<lparr>dialogs := Some (new_dialogs fe (stored_defaultPath this))\<rparr>)"
  using getDialogOptions_snd [of fe this t opts] by (metis prod.collapse)

lemma showDialog_error:
  assumes "fst (getDialogOptions fe this t opts) = Inl e"
  shows "showDialog fe dn this t opts =
           (Inl e, this\<lparr>dialogs := Some (new_dialogs fe (stored_defaultPath this))\<rparr>)"
proof -
  have "getDialogOptions fe this t opts =
          (Inl e, this\<lparr>dialogs := Some (new_dialogs fe (stored_defaultPath this))\<rparr>)"
    using getDialogOptions_pair [of fe this t opts] assms by simp
  then show ?thesis by (simp add: showDialog_def)
qed

lemma prepare_Built:
  "prepare (Built built) = Inr (BuiltButtons (buttons built), Built (handed_over built))"
  by (simp add: handed_over_def Let_def split: option.split button_entries.split)

lemma showDialog_message_box:
  assumes "t \<noteq> ''open''" and "t \<noteq> ''save''"
    and "fst (getDialogOptions fe this t opts) = Inr (Built built)"
  shows "showDialog fe dn this t opts =
           (case button_at (buttons built) (showMessageBox (dialog this) (Built (handed_over built))) of
              None \<Rightarrow> Inl ButtonIndexError
            | Some b \<Rightarrow> Inr (Str (id_button b)),
            this\<lparr>dialogs := Some (new_dialogs fe (stored_defaultPath this)),
                 calls := calls this @ [ShowMessageBox (Built (handed_over built))]\<rparr>)"
proof -
  have g: "getDialogOptions fe this t opts =
          (Inr (Built built), this\<lparr>dialogs := Some (new_dialogs fe (stored_defaultPath this))\<rparr>)"
    using getDialogOptions_pair [of fe this t opts] assms(3) by simp
  show ?thesis
    using assms(1,2)
    by (simp add: showDialog_def g Let_def prepare_Built del: prepare.simps split: option.split)
qed

lemma showDialog_open:
  assumes "fst (getDialogOptions fe this ''open'' opts) = Inr (Built built)"
  shows "showDialog fe dn this ''open'' opts =
           (let this2 = this\<lparr>dialogs := Some (new_dialogs fe (stored_defaultPath this)),
                             calls := calls this @ [ShowOpenDialog (Built (handed_over built))]\<rparr>
            in case showOpenDialog (dialog this) (Built (handed_over built)) of
                 None \<Rightarrow> (Inr Undefined, this2)
               | Some fs \<Rightarrow>
                   (case setDefaultPath dn this2 (Arr fs) of
                      (Inl e, this3) \<Rightarrow> (Inl e, this3)
                    | (Inr _, this3) \<Rightarrow> (Inr (Arr fs), this3)))"
proof -
  have g: "getDialogOptions fe this ''open'' opts =
          (Inr (Built built), this\<lparr>dialogs := Some (new_dialogs fe (stored_defaultPath this))\<rparr>)"
    using getDialogOptions_pair [of fe this "''open''" opts] assms by simp
  show ?thesis
    by (simp add: showDialog_def g Let_def prepare_Built del: prepare.simps split: option.split)
qed

lemma showDialog_save:
  assumes "fst (getDialogOptions fe this ''save'' opts) = Inr (Built built)"
  shows "showDialog fe dn this ''save'' opts =
           (let this2 = this\<lparr>dialogs := Some (new_dialogs fe (stored_defaultPath this)),
                             calls := calls this @ [ShowSaveDialog (Built (handed_over built))]\<rparr>
            in case showSaveDialog (dialog this) (Built (handed_over built)) of
                 None \<Rightarrow> (Inr Undefined, this2)
               | Some f \<Rightarrow>
                   (if f = [] then (Inr (Str f), this2)
                    else case setDefaultPath dn this2 (Str f) of
                      (Inl e, this3) \<Rightarrow> (Inl e, this3)
                    | (Inr _, this3) \<Rightarrow> (Inr (Str f), this3)))"
proof -
  have g: "getDialogOptions fe this ''save'' opts =
          (Inr (Built built), this\<lparr>dialogs := Some (new_dialogs fe (stored_defaultPath this))\<rparr>)"
    using getDialogOptions_pair [of fe this "''save''" opts] assms by simp
  show ?thesis
    by (simp add: showDialog_def g Let_def prepare_Built del: prepare.simps split: option.split)
qed

lemma ensureOptions_present:
  "(\<And>k. k \<in> set ks \<Longrightarrow> opts k \<noteq> None) \<Longrightarrow> ensureOptions ks opts = Inr ()"
  by (induction ks) (auto split: option.split)

lemma ensureOptions_absent:
  "k \<in> set ks \<Longrightarrow> opts k = None \<Longrightarrow> ensureOptions ks opts = Inl MissingOptionError"
  by (induction ks) (auto split: option.split)

lemma map_of_new_dialogs [simp]:
  "map_of (members (new_dialogs fe p)) ''contentChanged'' = Some dialogs_contentChanged"
  "map_of (members (new_dialogs fe p)) ''open'' = Some (dialogs_open fe p)"
  "map_of (members (new_dialogs fe p)) ''save'' = Some (dialogs_save fe p)"
  "map_of (members (new_dialogs fe p)) ''close'' = Some dialogs_close"
  "map_of (members (new_dialogs fe p)) ''importError'' = Some dialogs_importError"
  "map_of (members (new_dialogs fe p)) ''unrecognizedFile'' = Some dialogs_unrecognizedFile"
  "map_of (members (new_dialogs fe p)) ''existingFile'' = Some dialogs_existingFile"
  "map_of (members (new_dialogs fe p)) ''reimportWarning'' = Some dialogs_reimportWarning"
  "map_of (members (new_dialogs fe p)) ''namespace'' = Some dialogs_namespace"
  "map_of (members (new_dialogs fe p)) ''savingDenied'' = Some dialogs_savingDenied"
  by (simp_all add: new_dialogs_def)

lemma required_options_simps [simp]:
  "required_options ''contentChanged'' = []"
  "required_options ''open'' = []"
  "required_options ''save'' = [''name'', ''fileType'']"
  "required_options ''close'' = [''name'']"
  "required_options ''importError'' = [''name'', ''errorDetails'']"
  "required_options ''unrecognizedFile'' = [''name'']"
  "required_options ''existingFile'' = [''name'']"
  "required_options ''reimportWarning'' = []"
  "required_options ''namespace'' = []"
  "required_options ''savingDenied'' = []"
  by (simp_all add: required_options_def)

lemma ids_contentChanged:
  "has_button_ids (case dialogs_contentChanged opts of Inl e \<Rightarrow> Inl e | Inr built \<Rightarrow> Inr (Built built)) [''ok'', ''cancel'']"
  by (simp add: has_button_ids_def dialogs_contentChanged_def)

lemma ids_close:
  "opts ''name'' \<noteq> None \<Longrightarrow> has_button_ids (case dialogs_close opts of Inl e \<Rightarrow> Inl e | Inr built \<Rightarrow> Inr (Built built)) [''cancel'', ''save'', ''discard'']"
  by (auto simp add: has_button_ids_def dialogs_close_def)

lemma ids_importError:
  "opts ''name'' \<noteq> None \<Longrightarrow> opts ''errorDetails'' \<noteq> None \<Longrightarrow>
   has_button_ids (case dialogs_importError opts of Inl e \<Rightarrow> Inl e | Inr built \<Rightarrow> Inr (Built built)) [''cancel'', ''ask-forum'']"
  by (auto simp add: has_button_ids_def dialogs_importError_def)

lemma ids_unrecognizedFile:
  "opts ''name'' \<noteq> None \<Longrightarrow> has_button_ids (case dialogs_unrecognizedFile opts of Inl e \<Rightarrow> Inl e | Inr built \<Rightarrow> Inr (Built built)) [''cancel'']"
  by (auto simp add: has_button_ids_def dialogs_unrecognizedFile_def)

lemma ids_existingFile:
  "opts ''name'' \<noteq> None \<Longrightarrow>
   has_button_ids (case dialogs_existingFile opts of Inl e \<Rightarrow> Inl e | Inr built \<Rightarrow> Inr (Built built)) [''cancel'', ''no-overwrite'', ''overwrite'']"
  by (auto simp add: has_button_ids_def dialogs_existingFile_def)

lemma ids_reimportWarning:
  "has_button_ids (case dialogs_reimportWarning opts of Inl e \<Rightarrow> Inl e | Inr built \<Rightarrow> Inr (Built built)) [''cancel'', ''switch'', ''discard'']"
  by (simp add: has_button_ids_def dialogs_reimportWarning_def)

lemma ids_namespace:
  "has_button_ids (case dialogs_namespace opts of Inl e \<Rightarrow> Inl e | Inr built \<Rightarrow> Inr (Built built)) [''cancel'', ''no'', ''yes'']"
  by (simp add: has_button_ids_def dialogs_namespace_def)

lemma ids_savingDenied:
  "has_button_ids (case dialogs_savingDenied opts of Inl e \<Rightarrow> Inl e | Inr built \<Rightarrow> Inr (Built built)) [''cancel'', ''save-as'']"
  by (simp add: has_button_ids_def dialogs_savingDenied_def)

lemma documented_cases:
  assumes "(kind, ids) \<in> set documented_button_ids"
  shows "(kind = ''contentChanged'' \<and> ids = [''ok'', ''cancel''])
       \<or> (kind = ''close'' \<and> ids = [''cancel'', ''save'', ''discard''])
       \<or> (kind = ''importError'' \<and> ids = [''cancel'', ''ask-forum''])
       \<or> (kind = ''unrecognizedFile'' \<and> ids = [''cancel''])
       \<or> (kind = ''existingFile'' \<and> ids = [''cancel'', ''no-overwrite'', ''overwrite''])
       \<or> (kind = ''reimportWarning'' \<and> ids = [''cancel'', ''switch'', ''discard''])
       \<or> (kind = ''namespace'' \<and> ids = [''cancel'', ''no'', ''yes''])
       \<or> (kind = ''savingDenied'' \<and> ids = [''cancel'', ''save-as''])"
  using assms unfolding documented_button_ids_def by simp

lemma getDialogOptions_documented:
  assumes "(kind, ids) \<in> set documented_button_ids"
    and "\<forall>k \<in> set (required_options kind). opts k \<noteq> None"
  shows "has_button_ids (fst (getDialogOptions fe this kind opts)) ids \<and> ids \<noteq> []"
  using documented_cases [OF assms(1)] assms(2)
  by (elim disjE conjE)
     (simp_all add: getDialogOptions_fst ids_contentChanged ids_close ids_importError
        ids_unrecognizedFile ids_existingFile ids_reimportWarning ids_namespace ids_savingDenied)

lemma documented_kinds:
  "map fst documented_button_ids = filter (\<lambda>k. k \<noteq> ''open'' \<and> k \<noteq> ''save'') dialog_kinds"
  by (simp add: documented_button_ids_def dialog_kinds_def)

lemma setDefaultPath_guard:
  "first_path r = Some p \<Longrightarrow> this_defaultPath this = Some p \<Longrightarrow> p \<noteq> [] \<Longrightarrow>
   setDefaultPath dn this r = (Inr (Some p), this)"
  by (cases r rule: first_path.cases) (simp_all add: setDefaultPath_def Let_def)

lemma setDefaultPath_update:
  "first_path r = Some p \<Longrightarrow> this_defaultPath this \<noteq> Some p \<or> p = [] \<Longrightarrow>
   setDefaultPath dn this r =
     (Inr None, this\<lparr>config := (config this)(''defaultPath'' \<mapsto> dn p),
                     this_defaultPath := Some (dn p)\<rparr>)"
  by (cases r rule: first_path.cases) (auto simp add: setDefaultPath_def config_set_def Let_def)

lemma setDefaultPath_no_path:
  "first_path r = None \<Longrightarrow> setDefaultPath dn this r = (Inl PathArgumentError, this)"
  by (cases r rule: first_path.cases) (auto simp add: setDefaultPath_def Let_def)

lemma setDefaultPath_first_path:
  "first_path r = first_path r' \<Longrightarrow> setDefaultPath dn this r = setDefaultPath dn this r'"
  by (cases r rule: first_path.cases; cases r' rule: first_path.cases)
     (simp_all add: setDefaultPath_def Let_def)

lemma setDefaultPath_frame:
  "calls (snd (setDefaultPath dn this r)) = calls this
   \<and> dialogs (snd (setDefaultPath dn this r)) = dialogs this
   \<and> dialog (snd (setDefaultPath dn this r)) = dialog this
   \<and> userDesktopPath (snd (setDefaultPath dn this r)) = userDesktopPath this"
  by (cases r rule: first_path.cases) (simp_all add: setDefaultPath_def Let_def)

lemma setDefaultPath_error_frame:
  "fst (setDefaultPath dn this r) = Inl e \<Longrightarrow> snd (setDefaultPath dn this r) = this"
  by (cases r rule: first_path.cases) (auto simp add: setDefaultPath_def Let_def split: if_splits)

lemma case_prod_snd_calls:
  "calls (snd (case setDefaultPath dn this2 r of
                 (Inl e, this3) \<Rightarrow> (Inl e, this3)
               | (Inr x, this3) \<Rightarrow> (Inr v, this3))) = calls this2"
  using setDefaultPath_frame [of dn this2 r]
  by (cases "setDefaultPath dn this2 r") (auto split: sum.split)

lemma showDialog_calls_error:
  "fst (getDialogOptions fe this t opts) = Inl e \<Longrightarrow>
   calls (snd (showDialog fe dn this t opts)) = calls this"
  by (simp add: showDialog_error)

lemma showDialog_calls_built:
  assumes "fst (getDialogOptions fe this t opts) = Inr (Built built)"
  shows "calls (snd (showDialog fe dn this t opts)) = calls this @ [primitive_for t (Built (handed_over built))]"
proof -
  consider "t = ''open''" | "t = ''save''" | "t \<noteq> ''open''" "t \<noteq> ''save''" by blast
  then show ?thesis
  proof cases
    case 1
    with assms show ?thesis
      by (simp add: showDialog_open primitive_for_def Let_def case_prod_snd_calls split: option.split)
  next
    case 2
    with assms show ?thesis
      by (simp add: showDialog_save primitive_for_def Let_def case_prod_snd_calls split: option.split)
  next
    case 3
    with assms show ?thesis
      by (simp add: showDialog_message_box primitive_for_def)
  qed
qed

lemma handed_over_noLink: "noLink (handed_over built) = Some True"
  by (simp add: handed_over_def split: option.split button_entries.split)

lemma getDialogOptions_open:
  "fst (getDialogOptions fe this ''open'' opts) =
     Inr (Built (empty_object
       \<lparr>title := Some ''Open diagram'',
        defaultPath := Some (stored_defaultPath this),
        properties := Some [''openFile'', ''multiSelections''],
        filters := Some (fe [''supported'', ''bpmn'', ''dmn'', ''cmmn'', ''all''])\<rparr>))"
  by (simp add: getDialogOptions_fst dialogs_open_def)

lemma required_options_cases:
  assumes "k \<in> set (required_options t)"
  shows "(t = ''save'' \<and> (k = ''name'' \<or> k = ''fileType''))
       \<or> (t = ''close'' \<and> k = ''name'')
       \<or> (t = ''importError'' \<and> (k = ''name'' \<or> k = ''errorDetails''))
       \<or> (t = ''unrecognizedFile'' \<and> k = ''name'')
       \<or> (t = ''existingFile'' \<and> k = ''name'')"
  using assms by (simp add: required_options_def split: if_splits)

lemma builder_missing:
  "opts ''name'' = None \<or> opts ''fileType'' = None \<Longrightarrow> dialogs_save fe p opts = Inl MissingOptionError"
  "opts ''name'' = None \<Longrightarrow> dialogs_close opts = Inl MissingOptionError"
  "opts ''name'' = None \<or> opts ''errorDetails'' = None \<Longrightarrow> dialogs_importError opts = Inl MissingOptionError"
  "opts ''name'' = None \<Longrightarrow> dialogs_unrecognizedFile opts = Inl MissingOptionError"
  "opts ''name'' = None \<Longrightarrow> dialogs_existingFile opts = Inl MissingOptionError"
  by (auto simp add: dialogs_save_def dialogs_close_def dialogs_importError_def
        dialogs_unrecognizedFile_def dialogs_existingFile_def split: option.split)

lemma getDialogOptions_missing:
  assumes "k \<in> set (required_options t)" and "opts k = None"
  shows "fst (getDialogOptions fe this t opts) = Inl MissingOptionError"
  using required_options_cases [OF assms(1)] assms(2)
  by (elim disjE conjE) (simp_all add: getDialogOptions_fst builder_missing)

lemma Object_prototype_names:
  "map fst (Object_prototype :: (string \<times> ('f dialogs_object \<Rightarrow> options \<Rightarrow> error + 'f js_value)) list)
     = inherited_functions"
  by (simp add: Object_prototype_def inherited_functions_def)

lemma map_of_Object_prototype_unknown:
  "t \<notin> set inherited_functions \<Longrightarrow>
   map_of (Object_prototype :: (string \<times> ('f dialogs_object \<Rightarrow> options \<Rightarrow> error + 'f js_value)) list) t = None"
  using Object_prototype_names [where 'f = 'f] by (metis map_of_eq_None_iff set_map)

lemma getDialogOptions_unknown:
  "t \<notin> set dialog_kinds \<Longrightarrow> t \<notin> set inherited_functions \<Longrightarrow>
   fst (getDialogOptions fe this t opts) = Inl UnknownRequestTypeError"
  by (simp add: getDialogOptions_fst map_of_new_dialogs_unknown map_of_Object_prototype_unknown)

lemma has_button_ids_built:
  assumes "has_button_ids r ids"
  obtains built bs where "r = Inr (Built built)" and "buttons built = Some (Buttons bs)"
    and "map id_button bs = ids"
  using assms
  by (auto simp add: has_button_ids_def split: sum.splits js_value.splits option.splits button_entries.splits)

lemma button_at_ids:
  assumes "buttons built = Some (Buttons bs)" and "map id_button bs = ids"
    and "0 \<le> i" and "nat i < length ids"
  shows "button_at (buttons built) i = Some (bs ! nat i) \<and> id_button (bs ! nat i) = ids ! nat i"
proof -
  from assms(2,4) have l: "nat i < length bs" by auto
  from assms(2) l have "id_button (bs ! nat i) = ids ! nat i"
    by (metis nth_map)
  with assms(1,3) l show ?thesis by (simp add: button_at_def)
qed

lemma documented_not_picker:
  "(kind, ids) \<in> set documented_button_ids \<Longrightarrow> kind \<noteq> ''open'' \<and> kind \<noteq> ''save''"
  by (auto simp add: documented_button_ids_def)

lemma showDialog_documented:
  assumes "(kind, ids) \<in> set documented_button_ids"
    and "\<forall>k \<in> set (required_options kind). opts k \<noteq> None"
  shows "\<exists>built. fst (getDialogOptions fe this kind opts) = Inr (Built built)
     \<and> calls (snd (showDialog fe dn this kind opts)) = calls this @ [ShowMessageBox (Built (handed_over built))]
     \<and> (0 \<le> showMessageBox (dialog this) (Built (handed_over built))
          \<and> nat (showMessageBox (dialog this) (Built (handed_over built))) < length ids
        \<longrightarrow> fst (showDialog fe dn this kind opts)
              = Inr (Str (ids ! nat (showMessageBox (dialog this) (Built (handed_over built))))))"
proof -
  from getDialogOptions_documented [OF assms, of fe this]
  have "has_button_ids (fst (getDialogOptions fe this kind opts)) ids" by blast
  then obtain built bs where b: "fst (getDialogOptions fe this kind opts) = Inr (Built built)"
    and bs: "buttons built = Some (Buttons bs)" and ids: "map id_button bs = ids"
    by (rule has_button_ids_built)
  from documented_not_picker [OF assms(1)] have k: "kind \<noteq> ''open''" "kind \<noteq> ''save''" by simp_all
  note s = showDialog_message_box [OF k b, of dn]
  have c: "calls (snd (showDialog fe dn this kind opts)) = calls this @ [ShowMessageBox (Built (handed_over built))]"
    by (simp add: s)
  have r: "fst (showDialog fe dn this kind opts)
              = Inr (Str (ids ! nat (showMessageBox (dialog this) (Built (handed_over built)))))"
    if "0 \<le> showMessageBox (dialog this) (Built (handed_over built))"
      and "nat (showMessageBox (dialog this) (Built (handed_over built))) < length ids"
    using button_at_ids [OF bs ids that] by (simp add: s)
  from b c r show ?thesis by blast
qed

lemma close_documented:
  "(''close'', [''cancel'', ''save'', ''discard'']) \<in> set documented_button_ids"
  by (simp add: documented_button_ids_def)

lemma getDialogOptions_save:
  "opts ''name'' = Some name \<Longrightarrow> opts ''fileType'' = Some fileType \<Longrightarrow>
   fst (getDialogOptions fe this ''save'' opts) =
     Inr (Built (empty_object
       \<lparr>title := Some (''Save '' @ name @ '' as..''),
        defaultPath := Some (stored_defaultPath this @ ''/'' @ name),
        filters := Some (fe [fileType, ''all''])\<rparr>))"
  by (simp add: getDialogOptions_fst dialogs_save_def concat_prop_def)

lemma setDefaultPath_Str_succeeds:
  "\<exists>v this3. setDefaultPath dn this2 (Str f) = (Inr v, this3)"
  by (simp add: setDefaultPath_def Let_def)

lemma setDefaultPath_Arr_succeeds:
  "\<exists>v this3. setDefaultPath dn this2 (Arr (f # fs)) = (Inr v, this3)"
  by (simp add: setDefaultPath_def Let_def)

lemma showDialog_save_result:
  assumes "fst (getDialogOptions fe this ''save'' opts) = Inr (Built built)"
  shows "fst (showDialog fe dn this ''save'' opts) =
           Inr (case showSaveDialog (dialog this) (Built (handed_over built)) of
                  None \<Rightarrow> Undefined | Some f \<Rightarrow> Str f)"
proof (cases "showSaveDialog (dialog this) (Built (handed_over built))")
  case None
  then show ?thesis by (simp add: showDialog_save [OF assms] Let_def)
next
  case (Some f)
  obtain v this3 where
    "setDefaultPath dn
       (this\<lparr>dialogs := Some (new_dialogs fe (stored_defaultPath this)),
             calls := calls this @ [ShowSaveDialog (Built (handed_over built))]\<rparr>) (Str f) = (Inr v, this3)"
    using setDefaultPath_Str_succeeds by blast
  with Some show ?thesis by (simp add: showDialog_save [OF assms] Let_def)
qed

lemma showDialog_open_result:
  assumes "fst (getDialogOptions fe this ''open'' opts) = Inr (Built built)"
  shows "showOpenDialog (dialog this) (Built (handed_over built)) = None
           \<Longrightarrow> fst (showDialog fe dn this ''open'' opts) = Inr Undefined"
    and "showOpenDialog (dialog this) (Built (handed_over built)) = Some (f # fs)
           \<Longrightarrow> fst (showDialog fe dn this ''open'' opts) = Inr (Arr (f # fs))"
proof -
  show "fst (showDialog fe dn this ''open'' opts) = Inr Undefined"
    if "showOpenDialog (dialog this) (Built (handed_over built)) = None"
    using that by (simp add: showDialog_open [OF assms] Let_def)
  show "fst (showDialog fe dn this ''open'' opts) = Inr (Arr (f # fs))"
    if s: "showOpenDialog (dialog this) (Built (handed_over built)) = Some (f # fs)"
  proof -
    obtain v this3 where
      "setDefaultPath dn
         (this\<lparr>dialogs := Some (new_dialogs fe (stored_defaultPath this)),
               calls := calls this @ [ShowOpenDialog (Built (handed_over built))]\<rparr>) (Arr (f # fs)) = (Inr v, this3)"
      using setDefaultPath_Arr_succeeds by blast
    with s show ?thesis by (simp add: showDialog_open [OF assms] Let_def)
  qed
qed

lemma getDialogOptions_ignores_dialogs:
  "getDialogOptions fe (this\<lparr>dialogs := any\<rparr>) t opts = getDialogOptions fe this t opts"
  by (simp add: getDialogOptions_def)

lemma showDialog_ignores_dialogs:
  "showDialog fe dn (this\<lparr>dialogs := any\<rparr>) t opts = showDialog fe dn this t opts"
  by (simp add: showDialog_def getDialogOptions_ignores_dialogs)

lemma setDefaultPath_ignores_dialogs:
  "setDefaultPath dn (this\<lparr>dialogs := any\<rparr>) r =
     (fst (setDefaultPath dn this r), (snd (setDefaultPath dn this r))\<lparr>dialogs := any\<rparr>)"
  by (cases r rule: first_path.cases) (simp_all add: setDefaultPath_def Let_def)

lemma getDialogOptions_same_store:
  assumes "config that ''defaultPath'' = config this ''defaultPath''"
    and "userDesktopPath that = userDesktopPath this"
  shows "fst (getDialogOptions fe that t opts) = fst (getDialogOptions fe this t opts)"
proof -
  from assms have "stored_defaultPath that = stored_defaultPath this"
    by (simp add: stored_defaultPath_def config_get_def)
  then show ?thesis unfolding getDialogOptions_fst by (simp cong: option.case_cong)
qed

lemma posix_dirname_examples:
  "posix_dirname ''/home/user/foo.bpmn'' = ''/home/user''"
  "posix_dirname ''/tmp/a'' = ''/tmp''"
  "posix_dirname ''/tmp/a/x.bpmn'' = ''/tmp/a''"
  by code_simp+

lemma showDialog_save_stores:
  assumes "opts ''name'' \<noteq> None" and "opts ''fileType'' \<noteq> None"
    and "\<forall>d. showSaveDialog (dialog this) d = Some f" and "f \<noteq> []"
    and "this_defaultPath this \<noteq> Some f"
  shows "fst (showDialog fe dn this ''save'' opts) = Inr (Str f)"
    and "config (snd (showDialog fe dn this ''save'' opts)) = (config this)(''defaultPath'' \<mapsto> dn f)"
    and "userDesktopPath (snd (showDialog fe dn this ''save'' opts)) = userDesktopPath this"
proof -
  from assms(1,2) obtain name fileType where "opts ''name'' = Some name" "opts ''fileType'' = Some fileType"
    by blast
  from getDialogOptions_save [OF this, of fe this]
  obtain built where g: "fst (getDialogOptions fe this ''save'' opts) = Inr (Built built)" by blast
  let ?this2 = "this\<lparr>dialogs := Some (new_dialogs fe (stored_defaultPath this)),
                     calls := calls this @ [ShowSaveDialog (Built (handed_over built))]\<rparr>"
  from assms(5) have "this_defaultPath ?this2 \<noteq> Some f \<or> f = []" by simp
  from setDefaultPath_update [of "Str f" f ?this2 dn, OF _ this]
  have u: "setDefaultPath dn ?this2 (Str f) =
     (Inr None, ?this2\<lparr>config := (config ?this2)(''defaultPath'' \<mapsto> dn f),
                     this_defaultPath := Some (dn f)\<rparr>)"
    by simp
  from assms(3) have r: "showSaveDialog (dialog this) (Built (handed_over built)) = Some f" by blast
  have s: "showDialog fe dn this ''save'' opts =
     (Inr (Str f), ?this2\<lparr>config := (config ?this2)(''defaultPath'' \<mapsto> dn f),
                     this_defaultPath := Some (dn f)\<rparr>)"
    using assms(4) by (simp add: showDialog_save [OF g] Let_def r u)
  show "fst (showDialog fe dn this ''save'' opts) = Inr (Str f)" by (simp add: s)
  show "config (snd (showDialog fe dn this ''save'' opts)) = (config this)(''defaultPath'' \<mapsto> dn f)"
    by (simp add: s)
  show "userDesktopPath (snd (showDialog fe dn this ''save'' opts)) = userDesktopPath this"
    by (simp add: s)
qed

lemma save_then_open:
  assumes "opts ''name'' \<noteq> None" and "opts ''fileType'' \<noteq> None"
    and "\<forall>d. showSaveDialog (dialog this) d = Some ''/home/user/foo.bpmn''"
    and "this_defaultPath this \<noteq> Some ''/home/user/foo.bpmn''"
  shows "fst (showDialog fe posix_dirname this ''save'' opts) = Inr (Str ''/home/user/foo.bpmn'')
     \<and> (\<exists>built. fst (getDialogOptions fe (snd (showDialog fe posix_dirname this ''save'' opts)) ''open'' opts')
             = Inr (Built built)
           \<and> defaultPath built = Some ''/home/user'')"
proof -
  have n: "''/home/user/foo.bpmn'' \<noteq> []" by simp
  note s = showDialog_save_stores [OF assms(1,2,3) n assms(4), of fe posix_dirname]
  have "stored_defaultPath (snd (showDialog fe posix_dirname this ''save'' opts)) = ''/home/user''"
    by (simp add: stored_defaultPath_def config_get_def s(2) posix_dirname_examples)
  then have "defaultPath (empty_object
       \<lparr>title := Some ''Open diagram'',
        defaultPath := Some (stored_defaultPath (snd (showDialog fe posix_dirname this ''save'' opts))),
        properties := Some [''openFile'', ''multiSelections''],
        filters := Some (fe [''supported'', ''bpmn'', ''dmn'', ''cmmn'', ''all''])\<rparr>) = Some ''/home/user''"
    by simp
  with s(1) getDialogOptions_open [of fe "snd (showDialog fe posix_dirname this ''save'' opts)" opts']
  show ?thesis by blast
qed

lemma revisiting_Dialog_state:
  "config revisiting_Dialog = [''defaultPath'' \<mapsto> ''/tmp/a'']"
  "this_defaultPath revisiting_Dialog = Some ''/tmp/a''"
  "userDesktopPath revisiting_Dialog = ''/home/user/Desktop''"
  "dialog revisiting_Dialog = revisiting_dialog"
proof -
  let ?fresh = "new_Dialog revisiting_dialog Map.empty ''/home/user/Desktop''"
  let ?opts = "[''name'' \<mapsto> ''x.bpmn'', ''fileType'' \<mapsto> ''bpmn'']"
  let ?built = "empty_object
       \<lparr>title := Some (''Save '' @ ''x.bpmn'' @ '' as..''),
        defaultPath := Some (stored_defaultPath ?fresh @ ''/'' @ ''x.bpmn''),
        filters := Some [''bpmn'', ''all'']\<rparr> :: string list dialog_options"
  have g: "fst (getDialogOptions (\<lambda>exts. exts) ?fresh ''save'' ?opts) = Inr (Built ?built)"
    by (rule getDialogOptions_save) simp_all
  have p: "showSaveDialog (dialog ?fresh) (Built (handed_over ?built)) = Some ''/tmp/a/x.bpmn''"
    by (simp add: new_Dialog_def revisiting_dialog_def handed_over_def empty_object_def
        stored_defaultPath_def config_get_def)
  let ?this2 = "?fresh\<lparr>dialogs := Some (new_dialogs (\<lambda>exts. exts) (stored_defaultPath ?fresh)),
                      calls := calls ?fresh @ [ShowSaveDialog (Built (handed_over ?built))]\<rparr>"
  have "this_defaultPath ?this2 \<noteq> Some ''/tmp/a/x.bpmn'' \<or> ''/tmp/a/x.bpmn'' = []"
    by (simp add: new_Dialog_def)
  from setDefaultPath_update [of "Str ''/tmp/a/x.bpmn''" "''/tmp/a/x.bpmn''" ?this2 posix_dirname, OF _ this]
  have u: "setDefaultPath posix_dirname ?this2 (Str ''/tmp/a/x.bpmn'') =
     (Inr None, ?this2\<lparr>config := (config ?this2)(''defaultPath'' \<mapsto> ''/tmp/a''),
                     this_defaultPath := Some ''/tmp/a''\<rparr>)"
    by (simp add: posix_dirname_examples)
  have s: "revisiting_Dialog = ?this2\<lparr>config := (config ?this2)(''defaultPath'' \<mapsto> ''/tmp/a''),
                     this_defaultPath := Some ''/tmp/a''\<rparr>"
    unfolding revisiting_Dialog_def
    using p u by (simp add: showDialog_save [OF g] Let_def)
  show "config revisiting_Dialog = [''defaultPath'' \<mapsto> ''/tmp/a'']"
    by (simp add: s new_Dialog_def)
  show "this_defaultPath revisiting_Dialog = Some ''/tmp/a''"
    by (simp add: s)
  show "userDesktopPath revisiting_Dialog = ''/home/user/Desktop''"
    by (simp add: s new_Dialog_def)
  show "dialog revisiting_Dialog = revisiting_dialog"
    by (simp add: s new_Dialog_def)
qed

lemma showDialog_unprepared:
  assumes "fst (getDialogOptions fe this t opts) = Inr returned" and "prepare returned = Inl e"
  shows "showDialog fe dn this t opts =
           (Inl e, this\<lparr>dialogs := Some (new_dialogs fe (stored_defaultPath this))\<rparr>)"
proof -
  have g: "getDialogOptions fe this t opts =
          (Inr returned, this\<lparr>dialogs := Some (new_dialogs fe (stored_defaultPath this))\<rparr>)"
    using getDialogOptions_pair [of fe this t opts] assms(1) by simp
  show ?thesis by (simp add: showDialog_def g assms(2) del: prepare.simps)
qed

lemma written_through_frame:
  "calls (written_through v this) = calls this"
  "config (written_through v this) = config this"
  "this_defaultPath (written_through v this) = this_defaultPath this"
  "dialog (written_through v this) = dialog this"
  by (cases v; simp)+

lemma case_sum_snd_calls:
  "calls (snd (case shown of
                 Inl e \<Rightarrow> (Inl e, this2)
               | Inr res \<Rightarrow>
                   (if truthy res \<and> P then
                      (case setDefaultPath dn this2 res of
                         (Inl e, this3) \<Rightarrow> (Inl e, this3)
                       | (Inr x, this3) \<Rightarrow> (Inr res, this3))
                    else (Inr res, this2)))) = calls this2"
  by (cases shown) (simp_all add: case_prod_snd_calls)

lemma showDialog_prepared:
  assumes "fst (getDialogOptions fe this t opts) = Inr returned"
    and "prepare returned = Inr (btns, dialogOptions)"
  shows "showDialog fe dn this t opts =
     (let this1 = written_through dialogOptions
                    (this\<lparr>dialogs := Some (new_dialogs fe (stored_defaultPath this))\<rparr>);
          this2 = this1\<lparr>calls := calls this @ [primitive_for t dialogOptions]\<rparr>;
          shown =
            (if t = ''open'' then
               Inr (case showOpenDialog (dialog this) dialogOptions of
                      None \<Rightarrow> Undefined | Some fs \<Rightarrow> Arr fs)
             else if t = ''save'' then
               Inr (case showSaveDialog (dialog this) dialogOptions of
                      None \<Rightarrow> Undefined | Some f \<Rightarrow> Str f)
             else id_at btns (showMessageBox (dialog this) dialogOptions))
      in case shown of
           Inl e \<Rightarrow> (Inl e, this2)
         | Inr res \<Rightarrow>
             (if truthy res \<and> (t = ''open'' \<or> t = ''save'') then
                (case setDefaultPath dn this2 res of
                   (Inl e, this3) \<Rightarrow> (Inl e, this3)
                 | (Inr _, this3) \<Rightarrow> (Inr res, this3))
              else (Inr res, this2)))"
proof -
  have g: "getDialogOptions fe this t opts =
          (Inr returned, this\<lparr>dialogs := Some (new_dialogs fe (stored_defaultPath this))\<rparr>)"
    using getDialogOptions_pair [of fe this t opts] assms(1) by simp
  show ?thesis
    unfolding showDialog_def g
    by (simp add: assms(2) Let_def primitive_for_def written_through_frame del: prepare.simps)
qed

lemma showDialog_calls_prepared:
  assumes "fst (getDialogOptions fe this t opts) = Inr returned"
    and "prepare returned = Inr (btns, dialogOptions)"
  shows "calls (snd (showDialog fe dn this t opts)) = calls this @ [primitive_for t dialogOptions]"
proof -
  let ?this2 = "(written_through dialogOptions
                    (this\<lparr>dialogs := Some (new_dialogs fe (stored_defaultPath this))\<rparr>))
                  \<lparr>calls := calls this @ [primitive_for t dialogOptions]\<rparr>"
  have "calls (snd (showDialog fe dn this t opts)) = calls ?this2"
    unfolding showDialog_prepared [OF assms] Let_def by (rule case_sum_snd_calls)
  then show ?thesis by simp
qed

lemma showDialog_calls_returned:
  assumes "fst (getDialogOptions fe this t opts) = Inr returned"
  shows "calls (snd (showDialog fe dn this t opts)) =
           calls this @ (case handed returned of
                           None \<Rightarrow> []
                         | Some dialogOptions \<Rightarrow> [primitive_for t dialogOptions])"
proof (cases "prepare returned")
  case (Inl e)
  then show ?thesis
    by (simp add: showDialog_unprepared [OF assms Inl] handed_def)
next
  case (Inr p)
  obtain btns dialogOptions where p: "p = (btns, dialogOptions)" by (cases p)
  with Inr show ?thesis
    by (simp add: showDialog_calls_prepared [OF assms] handed_def)
qed

lemma handed_noLink: "handed returned = Some dialogOptions \<Longrightarrow> noLink_of dialogOptions = Some True"
  by (cases returned)
     (auto simp add: handed_def Let_def split: option.splits button_entries.splits property.splits if_splits)

lemma handed_Built: "handed (Built built) = Some (Built (handed_over built))"
  by (simp add: handed_def prepare_Built del: prepare.simps)

lemma inherited_not_kind: "t \<in> set inherited_functions \<Longrightarrow> t \<notin> set dialog_kinds"
  by (auto simp add: inherited_functions_def dialog_kinds_def)

lemma getDialogOptions_inherited:
  assumes "t \<in> set inherited_functions"
  shows "fst (getDialogOptions fe this t opts) =
           (case map_of Object_prototype t of
              Some inherited \<Rightarrow> inherited (new_dialogs fe (stored_defaultPath this)) opts
            | None \<Rightarrow> Inl UnknownRequestTypeError)"
  using inherited_not_kind [OF assms]
  by (simp add: getDialogOptions_fst map_of_new_dialogs_unknown)

lemma inherited_fails_early:
  assumes "t \<in> set inherited_functions" and "t \<noteq> ''constructor''" and "t \<noteq> ''valueOf''"
  shows "(\<exists>e. fst (showDialog fe dn this t opts) = Inl e)
       \<and> calls (snd (showDialog fe dn this t opts)) = calls this"
proof -
  have "(\<exists>e. fst (getDialogOptions fe this t opts) = Inl e)
      \<or> (\<exists>returned e. fst (getDialogOptions fe this t opts) = Inr returned \<and> prepare returned = Inl e)"
    using assms
    by (auto simp add: getDialogOptions_inherited inherited_functions_def Object_prototype_def
        to_property_key_def split: option.split)
  then show ?thesis
    by (auto simp add: showDialog_error showDialog_unprepared)
qed

lemma showDialog_open_stores:
  assumes "\<forall>d. showOpenDialog (dialog this) d = Some (f # fs)"
    and "this_defaultPath this \<noteq> Some f \<or> f = []"
  shows "fst (showDialog fe dn this ''open'' opts) = Inr (Arr (f # fs))"
    and "config (snd (showDialog fe dn this ''open'' opts)) = (config this)(''defaultPath'' \<mapsto> dn f)"
    and "this_defaultPath (snd (showDialog fe dn this ''open'' opts)) = Some (dn f)"
proof -
  obtain built where g: "fst (getDialogOptions fe this ''open'' opts) = Inr (Built built)"
    using getDialogOptions_open by blast
  let ?this2 = "this\<lparr>dialogs := Some (new_dialogs fe (stored_defaultPath this)),
                     calls := calls this @ [ShowOpenDialog (Built (handed_over built))]\<rparr>"
  from assms(2) have "this_defaultPath ?this2 \<noteq> Some f \<or> f = []" by simp
  from setDefaultPath_update [of "Arr (f # fs)" f ?this2 dn, OF _ this]
  have u: "setDefaultPath dn ?this2 (Arr (f # fs)) =
     (Inr None, ?this2\<lparr>config := (config ?this2)(''defaultPath'' \<mapsto> dn f),
                     this_defaultPath := Some (dn f)\<rparr>)"
    by simp
  from assms(1) have r: "showOpenDialog (dialog this) (Built (handed_over built)) = Some (f # fs)" by blast
  have s: "showDialog fe dn this ''open'' opts =
     (Inr (Arr (f # fs)), ?this2\<lparr>config := (config ?this2)(''defaultPath'' \<mapsto> dn f),
                     this_defaultPath := Some (dn f)\<rparr>)"
    by (simp add: showDialog_open [OF g] Let_def r u)
  show "fst (showDialog fe dn this ''open'' opts) = Inr (Arr (f # fs))" by (simp add: s)
  show "config (snd (showDialog fe dn this ''open'' opts)) = (config this)(''defaultPath'' \<mapsto> dn f)"
    by (simp add: s)
  show "this_defaultPath (snd (showDialog fe dn this ''open'' opts)) = Some (dn f)"
    by (simp add: s)
qed

lemma showDialog_cancelled_keeps:
  "\<forall>d. showOpenDialog (dialog this) d = None \<Longrightarrow>
     config (snd (showDialog fe dn this ''open'' opts)) = config this"
  "\<forall>d. showSaveDialog (dialog this) d = None \<Longrightarrow>
     config (snd (showDialog fe dn this ''save'' opts)) = config this"
proof -
  show "config (snd (showDialog fe dn this ''open'' opts)) = config this"
    if c: "\<forall>d. showOpenDialog (dialog this) d = None"
  proof -
    obtain built where g: "fst (getDialogOptions fe this ''open'' opts) = Inr (Built built)"
      using getDialogOptions_open by blast
    from c show ?thesis by (simp add: showDialog_open [OF g] Let_def)
  qed
  show "config (snd (showDialog fe dn this ''save'' opts)) = config this"
    if c: "\<forall>d. showSaveDialog (dialog this) d = None"
  proof (cases "fst (getDialogOptions fe this ''save'' opts)")
    case (Inl e)
    then show ?thesis by (simp add: showDialog_error)
  next
    case (Inr returned)
    show ?thesis
    proof (cases "prepare returned")
      case (Inl e)
      then show ?thesis by (simp add: showDialog_unprepared [OF Inr])
    next
      case p: (Inr q)
      obtain btns dialogOptions where "q = (btns, dialogOptions)" by (cases q)
      with p have "prepare returned = Inr (btns, dialogOptions)" by simp
      from showDialog_prepared [OF Inr this, of dn] c show ?thesis
        by (simp add: Let_def written_through_frame)
    qed
  qed
qed

lemma showDialog_other_kinds_keep:
  assumes "t \<noteq> ''open''" and "t \<noteq> ''save''"
  shows "config (snd (showDialog fe dn this t opts)) = config this"
    and "this_defaultPath (snd (showDialog fe dn this t opts)) = this_defaultPath this"
proof -
  have "config (snd (showDialog fe dn this t opts)) = config this
      \<and> this_defaultPath (snd (showDialog fe dn this t opts)) = this_defaultPath this"
  proof (cases "fst (getDialogOptions fe this t opts)")
    case (Inl e)
    then show ?thesis by (simp add: showDialog_error)
  next
    case (Inr returned)
    show ?thesis
    proof (cases "prepare returned")
      case (Inl e)
      then show ?thesis by (simp add: showDialog_unprepared [OF Inr])
    next
      case p: (Inr q)
      obtain btns dialogOptions where "q = (btns, dialogOptions)" by (cases q)
      with p have "prepare returned = Inr (btns, dialogOptions)" by simp
      from showDialog_prepared [OF Inr this, of dn] assms show ?thesis
        by (simp add: Let_def written_through_frame split: sum.split)
    qed
  qed
  then show "config (snd (showDialog fe dn this t opts)) = config this"
    and "this_defaultPath (snd (showDialog fe dn this t opts)) = this_defaultPath this"
    by simp_all
qed

section \<open>The claims\<close>

text \<open>
  C1. For every message-box kind, \<^verbatim>\<open>getDialogOptions\<close> with all required options
  present returns an object whose buttons carry exactly the identifiers fixed for that
  kind, in their order, and that sequence is not empty. The kinds with buttons are all
  the kinds of the table but \<^verbatim>\<open>open\<close> and \<^verbatim>\<open>save\<close>. For \<^verbatim>\<open>close\<close> with the name
  \<^verbatim>\<open>diagram.bpmn\<close> the identifiers are \<^verbatim>\<open>cancel\<close>, \<^verbatim>\<open>save\<close>, \<^verbatim>\<open>discard\<close>.
\<close>

theorem getDialogOptions_buttons:
  "(\<forall>kind ids opts. (kind, ids) \<in> set documented_button_ids
        \<and> (\<forall>k \<in> set (required_options kind). opts k \<noteq> None)
      \<longrightarrow> has_button_ids (fst (getDialogOptions fe this kind opts)) ids \<and> ids \<noteq> [])
   \<and> map fst documented_button_ids = filter (\<lambda>k. k \<noteq> ''open'' \<and> k \<noteq> ''save'') (map fst (members (new_dialogs fe p)))
   \<and> has_button_ids (fst (getDialogOptions fe this ''close'' [''name'' \<mapsto> ''diagram.bpmn'']))
        [''cancel'', ''save'', ''discard'']"
proof (intro conjI allI impI)
  fix kind ids and opts :: options
  assume a: "(kind, ids) \<in> set documented_button_ids \<and> (\<forall>k \<in> set (required_options kind). opts k \<noteq> None)"
  then show "has_button_ids (fst (getDialogOptions fe this kind opts)) ids"
    using getDialogOptions_documented by blast
  from a show "ids \<noteq> []" using getDialogOptions_documented by blast
next
  show "map fst documented_button_ids = filter (\<lambda>k. k \<noteq> ''open'' \<and> k \<noteq> ''save'') (map fst (members (new_dialogs fe p)))"
    by (simp add: documented_kinds new_dialogs_keys)
next
  show "has_button_ids (fst (getDialogOptions fe this ''close'' [''name'' \<mapsto> ''diagram.bpmn''])) [''cancel'', ''save'', ''discard'']"
    by (simp add: getDialogOptions_fst ids_close)
qed

theorem getDialogOptions_buttons_witness:
  "(''existingFile'', [''cancel'', ''no-overwrite'', ''overwrite'']) \<in> set documented_button_ids
   \<and> required_options ''existingFile'' = [''name'']
   \<and> [''name'' \<mapsto> ''a.bpmn''] ''name'' = Some ''a.bpmn''
   \<and> has_button_ids
        (fst (getDialogOptions (\<lambda>exts. exts) example_Dialog ''existingFile'' [''name'' \<mapsto> ''a.bpmn'']))
        [''cancel'', ''no-overwrite'', ''overwrite'']"
proof -
  have m: "(''existingFile'', [''cancel'', ''no-overwrite'', ''overwrite'']) \<in> set documented_button_ids"
    by (simp add: documented_button_ids_def)
  have r: "\<forall>k \<in> set (required_options ''existingFile''). [''name'' \<mapsto> ''a.bpmn''] k \<noteq> None"
    by simp
  from getDialogOptions_buttons [of "\<lambda>exts. exts" example_Dialog "''x''"] m r
  have "has_button_ids
        (fst (getDialogOptions (\<lambda>exts. exts) example_Dialog ''existingFile'' [''name'' \<mapsto> ''a.bpmn'']))
        [''cancel'', ''no-overwrite'', ''overwrite'']"
    by blast
  with m show ?thesis by simp
qed

text \<open>
  C2. Whenever a field a kind requires is absent from the options, \<^verbatim>\<open>getDialogOptions\<close>
  fails with \<^verbatim>\<open>MissingOptionError\<close>, and so does \<^verbatim>\<open>showDialog\<close>, without having invoked
  any platform primitive: the history of calls is what it was. In particular \<^verbatim>\<open>save\<close>
  without \<^verbatim>\<open>fileType\<close> and \<^verbatim>\<open>close\<close> without \<^verbatim>\<open>name\<close> fail.
\<close>

theorem missing_option_fails:
  "(\<forall>t opts k. k \<in> set (required_options t) \<and> opts k = None \<longrightarrow>
       fst (getDialogOptions fe this t opts) = Inl MissingOptionError
     \<and> fst (showDialog fe dn this t opts) = Inl MissingOptionError
     \<and> calls (snd (showDialog fe dn this t opts)) = calls this)
   \<and> fst (getDialogOptions fe this ''save'' [''name'' \<mapsto> ''diagram.bpmn'']) = Inl MissingOptionError
   \<and> fst (getDialogOptions fe this ''close'' Map.empty) = Inl MissingOptionError"
proof (intro conjI allI impI)
  fix t k and opts :: options
  assume a: "k \<in> set (required_options t) \<and> opts k = None"
  then show g: "fst (getDialogOptions fe this t opts) = Inl MissingOptionError"
    using getDialogOptions_missing by blast
  from g show "fst (showDialog fe dn this t opts) = Inl MissingOptionError"
    by (simp add: showDialog_error)
  from g show "calls (snd (showDialog fe dn this t opts)) = calls this"
    by (simp add: showDialog_error)
next
  show "fst (getDialogOptions fe this ''save'' [''name'' \<mapsto> ''diagram.bpmn'']) = Inl MissingOptionError"
    by (simp add: getDialogOptions_fst builder_missing)
next
  show "fst (getDialogOptions fe this ''close'' Map.empty) = Inl MissingOptionError"
    by (simp add: getDialogOptions_fst builder_missing)
qed

theorem missing_option_fails_witness:
  "''errorDetails'' \<in> set (required_options ''importError'')
   \<and> [''name'' \<mapsto> ''a.bpmn''] ''errorDetails'' = None
   \<and> fst (showDialog (\<lambda>exts. exts) posix_dirname example_Dialog ''importError'' [''name'' \<mapsto> ''a.bpmn''])
       = Inl MissingOptionError
   \<and> calls (snd (showDialog (\<lambda>exts. exts) posix_dirname example_Dialog ''importError'' [''name'' \<mapsto> ''a.bpmn'']))
       = []"
proof -
  have r: "''errorDetails'' \<in> set (required_options ''importError'')" by simp
  have n: "[''name'' \<mapsto> ''a.bpmn''] ''errorDetails'' = None" by simp
  have c: "calls example_Dialog = []" by (simp add: example_Dialog_def new_Dialog_def)
  from missing_option_fails [of "\<lambda>exts. exts" example_Dialog posix_dirname] r n
  have "fst (showDialog (\<lambda>exts. exts) posix_dirname example_Dialog ''importError'' [''name'' \<mapsto> ''a.bpmn''])
       = Inl MissingOptionError
     \<and> calls (snd (showDialog (\<lambda>exts. exts) posix_dirname example_Dialog ''importError'' [''name'' \<mapsto> ''a.bpmn'']))
       = calls example_Dialog"
    by blast
  with r n c show ?thesis by simp
qed

text \<open>
  C5, as amended. For every request type that is neither a key of the table nor the name
  of a function the table inherits from \<^verbatim>\<open>Object.prototype\<close>, \<^verbatim>\<open>showDialog\<close> fails with
  the error of calling an undefined member (line 319, the specification's
  \<^verbatim>\<open>UnknownRequestTypeError\<close>) and invokes no platform primitive; so it does for
  \<^verbatim>\<open>unknown-kind\<close> with empty options. For every request type that is no key of the
  table, \<^verbatim>\<open>constructor\<close> and \<^verbatim>\<open>valueOf\<close> apart, it fails before any platform primitive is
  invoked. The keys of the table are the ten request kinds, and the inherited functions
  are the eleven listed.
\<close>

theorem unknown_request_type_fails:
  "(\<forall>t opts. t \<notin> set (map fst (members (new_dialogs fe (stored_defaultPath this))))
        \<and> t \<notin> set inherited_functions \<longrightarrow>
       showDialog fe dn this t opts =
         (Inl UnknownRequestTypeError, this\<lparr>dialogs := Some (new_dialogs fe (stored_defaultPath this))\<rparr>)
     \<and> calls (snd (showDialog fe dn this t opts)) = calls this)
   \<and> (\<forall>t opts. t \<notin> set (map fst (members (new_dialogs fe (stored_defaultPath this))))
        \<and> t \<noteq> ''constructor'' \<and> t \<noteq> ''valueOf'' \<longrightarrow>
       (\<exists>e. fst (showDialog fe dn this t opts) = Inl e)
     \<and> calls (snd (showDialog fe dn this t opts)) = calls this)
   \<and> map fst (members (new_dialogs fe (stored_defaultPath this))) = dialog_kinds
   \<and> map fst (Object_prototype :: (string \<times> ('f dialogs_object \<Rightarrow> options \<Rightarrow> error + 'f js_value)) list)
       = inherited_functions
   \<and> fst (showDialog fe dn this ''unknown-kind'' Map.empty) = Inl UnknownRequestTypeError
   \<and> calls (snd (showDialog fe dn this ''unknown-kind'' Map.empty)) = calls this"
proof -
  have u: "showDialog fe dn this t opts =
         (Inl UnknownRequestTypeError, this\<lparr>dialogs := Some (new_dialogs fe (stored_defaultPath this))\<rparr>)"
    if "t \<notin> set dialog_kinds" and "t \<notin> set inherited_functions" for t opts
    using that by (simp add: showDialog_error getDialogOptions_unknown)
  have f: "(\<exists>e. fst (showDialog fe dn this t opts) = Inl e)
     \<and> calls (snd (showDialog fe dn this t opts)) = calls this"
    if "t \<notin> set dialog_kinds" and "t \<noteq> ''constructor''" and "t \<noteq> ''valueOf''" for t opts
  proof (cases "t \<in> set inherited_functions")
    case True
    then show ?thesis using that(2,3) by (rule inherited_fails_early)
  next
    case False
    with that(1) show ?thesis by (simp add: u)
  qed
  have k: "''unknown-kind'' \<notin> set dialog_kinds" "''unknown-kind'' \<notin> set inherited_functions"
    by (simp_all add: dialog_kinds_def inherited_functions_def)
  show ?thesis
    using u f k by (simp add: new_dialogs_keys Object_prototype_names)
qed

theorem unknown_request_type_fails_witness:
  "''constructDiagram'' \<notin> set (map fst (members (new_dialogs (\<lambda>exts. exts) (stored_defaultPath example_Dialog))))
   \<and> ''constructDiagram'' \<notin> set inherited_functions
   \<and> fst (showDialog (\<lambda>exts. exts) posix_dirname example_Dialog ''constructDiagram'' [''name'' \<mapsto> ''a.bpmn''])
       = Inl UnknownRequestTypeError
   \<and> calls (snd (showDialog (\<lambda>exts. exts) posix_dirname example_Dialog ''constructDiagram'' [''name'' \<mapsto> ''a.bpmn'']))
       = []"
proof -
  have k: "''constructDiagram'' \<notin> set (map fst (members (new_dialogs (\<lambda>exts. exts) (stored_defaultPath example_Dialog))))"
    "''constructDiagram'' \<notin> set inherited_functions"
    by (simp_all add: new_dialogs_keys dialog_kinds_def inherited_functions_def)
  have c: "calls example_Dialog = []" by (simp add: example_Dialog_def new_Dialog_def)
  from unknown_request_type_fails [of "\<lambda>exts. exts" example_Dialog posix_dirname] k
  have "showDialog (\<lambda>exts. exts) posix_dirname example_Dialog ''constructDiagram'' [''name'' \<mapsto> ''a.bpmn''] =
         (Inl UnknownRequestTypeError,
          example_Dialog\<lparr>dialogs := Some (new_dialogs (\<lambda>exts. exts) (stored_defaultPath example_Dialog))\<rparr>)"
    by blast
  with k c show ?thesis by simp
qed

text \<open>
  C5 as stated fails for the request type \<^verbatim>\<open>constructor\<close>, which is none of the ten
  kinds: line 319 finds the inherited \<^verbatim>\<open>Object\<close>, which returns the options object;
  \<^verbatim>\<open>showDialog\<close> sets \<^verbatim>\<open>noLink\<close> on it, calls the message box, and fails only at line
  370, where there are no buttons to index.
\<close>

theorem unknown_request_type_fails_counterexample:
  "''constructor'' \<notin> set dialog_kinds
   \<and> fst (getDialogOptions (\<lambda>exts. exts) example_Dialog ''constructor'' Map.empty)
       = Inr (OptionsObject Map.empty)
   \<and> fst (showDialog (\<lambda>exts. exts) posix_dirname example_Dialog ''constructor'' Map.empty)
       = Inl ButtonIndexError
   \<and> calls (snd (showDialog (\<lambda>exts. exts) posix_dirname example_Dialog ''constructor'' Map.empty))
       = [ShowMessageBox (OptionsObject [''noLink'' \<mapsto> Flag True])]"
proof -
  have k: "''constructor'' \<in> set inherited_functions" by (simp add: inherited_functions_def)
  have g: "fst (getDialogOptions (\<lambda>exts. exts) example_Dialog ''constructor'' Map.empty)
       = Inr (OptionsObject Map.empty :: string list js_value)"
    by (simp add: getDialogOptions_inherited [OF k] Object_prototype_def)
  have p: "prepare (OptionsObject Map.empty :: string list js_value)
       = Inr (OptionsButtons None, OptionsObject [''noLink'' \<mapsto> Flag True])"
    by simp
  have e: "calls example_Dialog = []" by (simp add: example_Dialog_def new_Dialog_def)
  have s: "fst (showDialog (\<lambda>exts. exts) posix_dirname example_Dialog ''constructor'' Map.empty)
       = Inl ButtonIndexError"
    by (simp add: showDialog_prepared [OF g p] Let_def)
  have c: "calls (snd (showDialog (\<lambda>exts. exts) posix_dirname example_Dialog ''constructor'' Map.empty))
       = [ShowMessageBox (OptionsObject [''noLink'' \<mapsto> Flag True])]"
    by (simp add: showDialog_calls_prepared [OF g p] e primitive_for_def)
  from inherited_not_kind [OF k] g s c show ?thesis by simp
qed

text \<open>
  C9. Whatever the request type and the options, every object \<^verbatim>\<open>showDialog\<close> hands to a
  platform primitive has \<^verbatim>\<open>noLink\<close> set to true: a request that fails before line 359
  invokes no primitive, any other request invokes exactly the primitive of its type (the
  open dialog, the save dialog or the message box) once, on the object
  \<^verbatim>\<open>getDialogOptions\<close> returned with \<^verbatim>\<open>noLink\<close> set; for a built object that is the built
  object with \<^verbatim>\<open>noLink\<close> set and the buttons replaced by their labels. There is no test
  of the platform.
\<close>

theorem showDialog_noLink:
  "\<exists>new. calls (snd (showDialog fe dn this t opts)) = calls this @ new
     \<and> (\<forall>c \<in> set new. noLink_of (call_options c) = Some True)
     \<and> (case fst (getDialogOptions fe this t opts) of
          Inl _ \<Rightarrow> new = []
        | Inr returned \<Rightarrow>
            new = (case handed returned of
                     None \<Rightarrow> []
                   | Some dialogOptions \<Rightarrow> [primitive_for t dialogOptions]))
     \<and> (\<forall>built. handed (Built built) = Some (Built (handed_over built))
          \<and> noLink (handed_over built) = Some True)"
proof (cases "fst (getDialogOptions fe this t opts)")
  case (Inl e)
  then show ?thesis by (simp add: showDialog_calls_error handed_Built handed_over_noLink)
next
  case (Inr returned)
  have "\<forall>c \<in> set (case handed returned of
                     None \<Rightarrow> []
                   | Some dialogOptions \<Rightarrow> [primitive_for t dialogOptions]).
          noLink_of (call_options c) = Some True"
    by (auto simp add: primitive_for_def handed_noLink split: option.split)
  with Inr show ?thesis
    by (simp add: showDialog_calls_returned handed_Built handed_over_noLink)
qed

theorem showDialog_noLink_witness:
  "(\<exists>c. calls (snd (showDialog (\<lambda>exts. exts) posix_dirname example_Dialog ''open'' Map.empty)) = [c]
     \<and> noLink_of (call_options c) = Some True)
   \<and> (\<exists>c. calls (snd (showDialog (\<lambda>exts. exts) posix_dirname example_Dialog ''valueOf'' Map.empty)) = [c]
     \<and> noLink_of (call_options c) = Some True)"
proof -
  have e: "calls example_Dialog = []"
    by (simp add: example_Dialog_def new_Dialog_def)
  have one: "\<exists>c. calls (snd (showDialog (\<lambda>exts. exts) posix_dirname example_Dialog t Map.empty)) = [c]
     \<and> noLink_of (call_options c) = Some True"
    if h: "fst (getDialogOptions (\<lambda>exts. exts) example_Dialog t Map.empty) = Inr returned"
      "handed returned \<noteq> None" for t and returned :: "string list js_value"
  proof -
    from showDialog_noLink [of "\<lambda>exts. exts" posix_dirname example_Dialog t Map.empty]
    obtain new where
      n: "calls (snd (showDialog (\<lambda>exts. exts) posix_dirname example_Dialog t Map.empty)) = calls example_Dialog @ new"
      and l: "\<forall>c \<in> set new. noLink_of (call_options c) = Some True"
      and s: "(case fst (getDialogOptions (\<lambda>exts. exts) example_Dialog t Map.empty) of
            Inl _ \<Rightarrow> new = []
          | Inr returned \<Rightarrow>
              new = (case handed returned of
                       None \<Rightarrow> []
                     | Some dialogOptions \<Rightarrow> [primitive_for t dialogOptions]))"
      by blast
    from s h obtain c where "new = [c]" by auto
    with n l e show ?thesis by simp
  qed
  have v: "''valueOf'' \<in> set inherited_functions" by (simp add: inherited_functions_def)
  have "fst (getDialogOptions (\<lambda>exts. exts) example_Dialog ''valueOf'' Map.empty)
      = Inr (DialogsObject (new_dialogs (\<lambda>exts. exts) (stored_defaultPath example_Dialog)))"
    by (simp add: getDialogOptions_inherited [OF v] Object_prototype_def)
  moreover have "handed (DialogsObject (new_dialogs (\<lambda>exts. exts) (stored_defaultPath example_Dialog))
      :: string list js_value) \<noteq> None"
    by (simp add: handed_def)
  moreover note getDialogOptions_open [of "\<lambda>exts. exts" example_Dialog Map.empty]
  moreover have "handed (Built b :: string list js_value) \<noteq> None" for b
    by (simp add: handed_Built)
  ultimately show ?thesis using one by blast
qed

text \<open>
  C4. For every message-box kind with its required options present, \<^verbatim>\<open>showDialog\<close>
  invokes the message box, once, on the built object, and when the index the platform
  returns lies within the button sequence it returns the identifier at that index of the
  kind's fixed sequence. For \<^verbatim>\<open>close\<close>, button index 1 resolves to \<^verbatim>\<open>save\<close>.
\<close>

theorem showDialog_button_choice:
  "(\<forall>kind ids opts.
      (kind, ids) \<in> set documented_button_ids \<and> (\<forall>k \<in> set (required_options kind). opts k \<noteq> None) \<longrightarrow>
      (\<exists>built. fst (getDialogOptions fe this kind opts) = Inr (Built built)
         \<and> calls (snd (showDialog fe dn this kind opts)) = calls this @ [ShowMessageBox (Built (handed_over built))]
         \<and> (0 \<le> showMessageBox (dialog this) (Built (handed_over built))
              \<and> nat (showMessageBox (dialog this) (Built (handed_over built))) < length ids
            \<longrightarrow> fst (showDialog fe dn this kind opts)
                  = Inr (Str (ids ! nat (showMessageBox (dialog this) (Built (handed_over built))))))))
   \<and> ((\<forall>d. showMessageBox (dialog this) d = 1) \<longrightarrow>
        fst (showDialog fe dn this ''close'' [''name'' \<mapsto> ''diagram.bpmn'']) = Inr (Str ''save''))"
proof (intro conjI allI impI)
  fix kind ids and opts :: options
  assume "(kind, ids) \<in> set documented_button_ids \<and> (\<forall>k \<in> set (required_options kind). opts k \<noteq> None)"
  then show "\<exists>built. fst (getDialogOptions fe this kind opts) = Inr (Built built)
         \<and> calls (snd (showDialog fe dn this kind opts)) = calls this @ [ShowMessageBox (Built (handed_over built))]
         \<and> (0 \<le> showMessageBox (dialog this) (Built (handed_over built))
              \<and> nat (showMessageBox (dialog this) (Built (handed_over built))) < length ids
            \<longrightarrow> fst (showDialog fe dn this kind opts)
                  = Inr (Str (ids ! nat (showMessageBox (dialog this) (Built (handed_over built))))))"
    using showDialog_documented by blast
next
  assume one: "\<forall>d. showMessageBox (dialog this) d = 1"
  have r: "\<forall>k \<in> set (required_options ''close''). [''name'' \<mapsto> ''diagram.bpmn''] k \<noteq> None"
    by simp
  from showDialog_documented [OF close_documented r, of fe this dn]
  obtain built where
    "0 \<le> showMessageBox (dialog this) (Built (handed_over built))
       \<and> nat (showMessageBox (dialog this) (Built (handed_over built))) < length [''cancel'', ''save'', ''discard'']
     \<longrightarrow> fst (showDialog fe dn this ''close'' [''name'' \<mapsto> ''diagram.bpmn''])
          = Inr (Str ([''cancel'', ''save'', ''discard''] ! nat (showMessageBox (dialog this) (Built (handed_over built)))))"
    by blast
  moreover from one have "showMessageBox (dialog this) (Built (handed_over built)) = 1" by blast
  ultimately show "fst (showDialog fe dn this ''close'' [''name'' \<mapsto> ''diagram.bpmn'']) = Inr (Str ''save'')"
    by simp
qed

theorem showDialog_button_choice_witness:
  "showMessageBox (dialog example_Dialog) = (\<lambda>d. 1)
   \<and> fst (showDialog (\<lambda>exts. exts) posix_dirname example_Dialog ''close'' [''name'' \<mapsto> ''diagram.bpmn''])
       = Inr (Str ''save'')"
proof -
  have one: "showMessageBox (dialog example_Dialog) = (\<lambda>d. 1)"
    by (simp add: example_Dialog_def new_Dialog_def example_dialog_def)
  then have "\<forall>d. showMessageBox (dialog example_Dialog) d = 1" by simp
  with showDialog_button_choice [of "\<lambda>exts. exts" example_Dialog posix_dirname] one
  show ?thesis by blast
qed

text \<open>
  C7. For a \<^verbatim>\<open>save\<close> request with \<^verbatim>\<open>name\<close> and \<^verbatim>\<open>fileType\<close>, the object handed to the
  save dialog has the stored default path, a slash and the name as its \<^verbatim>\<open>defaultPath\<close>,
  and as filters what \<^verbatim>\<open>filterExtensions\<close> makes of the file type followed by \<^verbatim>\<open>all\<close>;
  \<^verbatim>\<open>showDialog\<close> returns the chosen path, or \<^verbatim>\<open>undefined\<close> when the dialog was cancelled.
\<close>

theorem showDialog_save_picker:
  "opts ''name'' = Some name \<and> opts ''fileType'' = Some fileType \<longrightarrow>
     (\<exists>d. calls (snd (showDialog fe dn this ''save'' opts)) = calls this @ [ShowSaveDialog (Built d)]
        \<and> title d = Some (''Save '' @ name @ '' as..'')
        \<and> defaultPath d = Some (stored_defaultPath this @ ''/'' @ name)
        \<and> filters d = Some (fe [fileType, ''all''])
        \<and> buttons d = None \<and> properties d = None \<and> noLink d = Some True
        \<and> fst (showDialog fe dn this ''save'' opts)
            = Inr (case showSaveDialog (dialog this) (Built d) of None \<Rightarrow> Undefined | Some f \<Rightarrow> Str f))"
proof
  assume "opts ''name'' = Some name \<and> opts ''fileType'' = Some fileType"
  then have g: "fst (getDialogOptions fe this ''save'' opts) =
     Inr (Built (empty_object
       \<lparr>title := Some (''Save '' @ name @ '' as..''),
        defaultPath := Some (stored_defaultPath this @ ''/'' @ name),
        filters := Some (fe [fileType, ''all''])\<rparr>))"
    (is "_ = Inr (Built ?built)")
    by (simp add: getDialogOptions_save)
  have c: "calls (snd (showDialog fe dn this ''save'' opts)) = calls this @ [ShowSaveDialog (Built (handed_over ?built))]"
    using showDialog_calls_built [OF g, of dn] by (simp add: primitive_for_def)
  have h: "title (handed_over ?built) = Some (''Save '' @ name @ '' as..'')"
    "defaultPath (handed_over ?built) = Some (stored_defaultPath this @ ''/'' @ name)"
    "filters (handed_over ?built) = Some (fe [fileType, ''all''])"
    "buttons (handed_over ?built) = None" "properties (handed_over ?built) = None"
    "noLink (handed_over ?built) = Some True"
    by (simp_all add: handed_over_def empty_object_def)
  from c h showDialog_save_result [OF g, of dn]
  show "\<exists>d. calls (snd (showDialog fe dn this ''save'' opts)) = calls this @ [ShowSaveDialog (Built d)]
        \<and> title d = Some (''Save '' @ name @ '' as..'')
        \<and> defaultPath d = Some (stored_defaultPath this @ ''/'' @ name)
        \<and> filters d = Some (fe [fileType, ''all''])
        \<and> buttons d = None \<and> properties d = None \<and> noLink d = Some True
        \<and> fst (showDialog fe dn this ''save'' opts)
            = Inr (case showSaveDialog (dialog this) (Built d) of None \<Rightarrow> Undefined | Some f \<Rightarrow> Str f)"
    by blast
qed

theorem showDialog_save_picker_witness:
  "\<exists>d. calls (snd (showDialog (\<lambda>exts. exts) posix_dirname example_Dialog ''save''
          [''name'' \<mapsto> ''diagram.bpmn'', ''fileType'' \<mapsto> ''bpmn''])) = [ShowSaveDialog (Built d)]
     \<and> defaultPath d = Some ''/home/user/Desktop/diagram.bpmn''
     \<and> filters d = Some [''bpmn'', ''all'']
     \<and> fst (showDialog (\<lambda>exts. exts) posix_dirname example_Dialog ''save''
          [''name'' \<mapsto> ''diagram.bpmn'', ''fileType'' \<mapsto> ''bpmn'']) = Inr (Str ''/home/user/foo.bpmn'')"
proof -
  let ?opts = "[''name'' \<mapsto> ''diagram.bpmn'', ''fileType'' \<mapsto> ''bpmn'']"
  have o: "?opts ''name'' = Some ''diagram.bpmn'' \<and> ?opts ''fileType'' = Some ''bpmn''" by simp
  have e: "calls example_Dialog = []" "stored_defaultPath example_Dialog = ''/home/user/Desktop''"
    "showSaveDialog (dialog example_Dialog) = (\<lambda>d. Some ''/home/user/foo.bpmn'')"
    by (simp_all add: example_Dialog_def new_Dialog_def stored_defaultPath_def config_get_def example_dialog_def)
  from showDialog_save_picker [of ?opts "''diagram.bpmn''" "''bpmn''" "\<lambda>exts. exts" posix_dirname example_Dialog] o
  obtain d where d: "calls (snd (showDialog (\<lambda>exts. exts) posix_dirname example_Dialog ''save'' ?opts))
       = calls example_Dialog @ [ShowSaveDialog (Built d)]"
    "defaultPath d = Some (stored_defaultPath example_Dialog @ ''/'' @ ''diagram.bpmn'')"
    "filters d = Some [''bpmn'', ''all'']"
    "fst (showDialog (\<lambda>exts. exts) posix_dirname example_Dialog ''save'' ?opts)
       = Inr (case showSaveDialog (dialog example_Dialog) (Built d) of None \<Rightarrow> Undefined | Some f \<Rightarrow> Str f)"
    by blast
  from d e show ?thesis by simp
qed

text \<open>
  C8. For an \<^verbatim>\<open>open\<close> request, the object handed to the open dialog has the properties
  \<^verbatim>\<open>openFile\<close> and \<^verbatim>\<open>multiSelections\<close>, the stored default path, and as filters what
  \<^verbatim>\<open>filterExtensions\<close> makes of \<^verbatim>\<open>supported\<close>, \<^verbatim>\<open>bpmn\<close>, \<^verbatim>\<open>dmn\<close>, \<^verbatim>\<open>cmmn\<close>, \<^verbatim>\<open>all\<close>;
  \<^verbatim>\<open>showDialog\<close> returns the selected paths, or \<^verbatim>\<open>undefined\<close> when the dialog was
  cancelled.
\<close>

theorem showDialog_open_picker:
  "\<exists>d. calls (snd (showDialog fe dn this ''open'' opts)) = calls this @ [ShowOpenDialog (Built d)]
     \<and> title d = Some ''Open diagram''
     \<and> defaultPath d = Some (stored_defaultPath this)
     \<and> properties d = Some [''openFile'', ''multiSelections'']
     \<and> filters d = Some (fe [''supported'', ''bpmn'', ''dmn'', ''cmmn'', ''all''])
     \<and> buttons d = None \<and> noLink d = Some True
     \<and> (showOpenDialog (dialog this) (Built d) = None \<longrightarrow>
          fst (showDialog fe dn this ''open'' opts) = Inr Undefined)
     \<and> (\<forall>f fs. showOpenDialog (dialog this) (Built d) = Some (f # fs) \<longrightarrow>
          fst (showDialog fe dn this ''open'' opts) = Inr (Arr (f # fs)))"
proof -
  let ?built = "empty_object
       \<lparr>title := Some ''Open diagram'',
        defaultPath := Some (stored_defaultPath this),
        properties := Some [''openFile'', ''multiSelections''],
        filters := Some (fe [''supported'', ''bpmn'', ''dmn'', ''cmmn'', ''all''])\<rparr>"
  have g: "fst (getDialogOptions fe this ''open'' opts) = Inr (Built ?built)"
    by (rule getDialogOptions_open)
  have c: "calls (snd (showDialog fe dn this ''open'' opts)) = calls this @ [ShowOpenDialog (Built (handed_over ?built))]"
    using showDialog_calls_built [OF g, of dn] by (simp add: primitive_for_def)
  have h: "title (handed_over ?built) = Some ''Open diagram''"
    "defaultPath (handed_over ?built) = Some (stored_defaultPath this)"
    "properties (handed_over ?built) = Some [''openFile'', ''multiSelections'']"
    "filters (handed_over ?built) = Some (fe [''supported'', ''bpmn'', ''dmn'', ''cmmn'', ''all''])"
    "buttons (handed_over ?built) = None"
    "noLink (handed_over ?built) = Some True"
    by (simp_all add: handed_over_def empty_object_def)
  have r1: "showOpenDialog (dialog this) (Built (handed_over ?built)) = None \<longrightarrow>
          fst (showDialog fe dn this ''open'' opts) = Inr Undefined"
    using showDialog_open_result(1) [OF g] by blast
  have r2: "\<forall>f fs. showOpenDialog (dialog this) (Built (handed_over ?built)) = Some (f # fs) \<longrightarrow>
          fst (showDialog fe dn this ''open'' opts) = Inr (Arr (f # fs))"
    using showDialog_open_result(2) [OF g] by blast
  show ?thesis
    by (rule exI [of _ "handed_over ?built"]) (intro conjI c h r1 r2)
qed

theorem showDialog_open_picker_witness:
  "\<exists>d. calls (snd (showDialog (\<lambda>exts. exts) posix_dirname example_Dialog ''open'' Map.empty))
         = [ShowOpenDialog (Built d)]
     \<and> properties d = Some [''openFile'', ''multiSelections'']
     \<and> defaultPath d = Some ''/home/user/Desktop''
     \<and> filters d = Some [''supported'', ''bpmn'', ''dmn'', ''cmmn'', ''all'']
     \<and> fst (showDialog (\<lambda>exts. exts) posix_dirname example_Dialog ''open'' Map.empty)
         = Inr (Arr [''/home/user/a.bpmn'', ''/srv/other/b.dmn''])"
proof -
  have e: "calls example_Dialog = []" "stored_defaultPath example_Dialog = ''/home/user/Desktop''"
    "showOpenDialog (dialog example_Dialog) = (\<lambda>d. Some [''/home/user/a.bpmn'', ''/srv/other/b.dmn''])"
    by (simp_all add: example_Dialog_def new_Dialog_def stored_defaultPath_def config_get_def example_dialog_def)
  from showDialog_open_picker [of "\<lambda>exts. exts" posix_dirname example_Dialog Map.empty]
  obtain d where d: "calls (snd (showDialog (\<lambda>exts. exts) posix_dirname example_Dialog ''open'' Map.empty))
       = calls example_Dialog @ [ShowOpenDialog (Built d)]"
    "properties d = Some [''openFile'', ''multiSelections'']"
    "defaultPath d = Some (stored_defaultPath example_Dialog)"
    "filters d = Some [''supported'', ''bpmn'', ''dmn'', ''cmmn'', ''all'']"
    "\<forall>f fs. showOpenDialog (dialog example_Dialog) (Built d) = Some (f # fs) \<longrightarrow>
          fst (showDialog (\<lambda>exts. exts) posix_dirname example_Dialog ''open'' Map.empty) = Inr (Arr (f # fs))"
    by blast
  from d(5) e(3)
  have "fst (showDialog (\<lambda>exts. exts) posix_dirname example_Dialog ''open'' Map.empty)
         = Inr (Arr [''/home/user/a.bpmn'', ''/srv/other/b.dmn''])"
    by simp
  with d e show ?thesis by simp
qed

text \<open>
  C6. \<^verbatim>\<open>getDialogOptions\<close> leaves the configuration store, \<^verbatim>\<open>this.defaultPath\<close>, the
  desktop path, the platform object and the history of platform calls as they were. The
  one property it assigns is the table \<^verbatim>\<open>this._dialogs\<close>, which no method ever observes:
  \<^verbatim>\<open>getDialogOptions\<close> and \<^verbatim>\<open>showDialog\<close> behave the same whatever the table held
  before, and \<^verbatim>\<open>setDefaultPath\<close> passes it through. Its result is determined by the
  request type, the options, the store's \<^verbatim>\<open>defaultPath\<close> and the desktop path, so a second
  call with the same inputs returns an equal object.
\<close>

theorem getDialogOptions_no_side_effects:
  "snd (getDialogOptions fe this t opts) = this\<lparr>dialogs := Some (new_dialogs fe (stored_defaultPath this))\<rparr>
   \<and> config (snd (getDialogOptions fe this t opts)) = config this
   \<and> this_defaultPath (snd (getDialogOptions fe this t opts)) = this_defaultPath this
   \<and> userDesktopPath (snd (getDialogOptions fe this t opts)) = userDesktopPath this
   \<and> dialog (snd (getDialogOptions fe this t opts)) = dialog this
   \<and> calls (snd (getDialogOptions fe this t opts)) = calls this
   \<and> getDialogOptions fe (this\<lparr>dialogs := any\<rparr>) t' opts' = getDialogOptions fe this t' opts'
   \<and> showDialog fe dn (this\<lparr>dialogs := any\<rparr>) t' opts' = showDialog fe dn this t' opts'
   \<and> setDefaultPath dn (this\<lparr>dialogs := any\<rparr>) r =
        (fst (setDefaultPath dn this r), (snd (setDefaultPath dn this r))\<lparr>dialogs := any\<rparr>)
   \<and> fst (getDialogOptions fe (snd (getDialogOptions fe this t opts)) t opts)
        = fst (getDialogOptions fe this t opts)
   \<and> (\<forall>that. config that ''defaultPath'' = config this ''defaultPath''
          \<and> userDesktopPath that = userDesktopPath this
        \<longrightarrow> fst (getDialogOptions fe that t opts) = fst (getDialogOptions fe this t opts))"
proof -
  have s: "snd (getDialogOptions fe this t opts) = this\<lparr>dialogs := Some (new_dialogs fe (stored_defaultPath this))\<rparr>"
    by (rule getDialogOptions_snd)
  have twice: "fst (getDialogOptions fe (snd (getDialogOptions fe this t opts)) t opts)
        = fst (getDialogOptions fe this t opts)"
    by (simp add: s getDialogOptions_ignores_dialogs)
  have same: "\<forall>that. config that ''defaultPath'' = config this ''defaultPath''
          \<and> userDesktopPath that = userDesktopPath this
        \<longrightarrow> fst (getDialogOptions fe that t opts) = fst (getDialogOptions fe this t opts)"
    using getDialogOptions_same_store by blast
  have frame: "config (snd (getDialogOptions fe this t opts)) = config this"
    "this_defaultPath (snd (getDialogOptions fe this t opts)) = this_defaultPath this"
    "userDesktopPath (snd (getDialogOptions fe this t opts)) = userDesktopPath this"
    "dialog (snd (getDialogOptions fe this t opts)) = dialog this"
    "calls (snd (getDialogOptions fe this t opts)) = calls this"
    by (simp_all add: s)
  show ?thesis
    by (intro conjI s frame twice same getDialogOptions_ignores_dialogs
        showDialog_ignores_dialogs setDefaultPath_ignores_dialogs)
qed

theorem getDialogOptions_no_side_effects_witness:
  "config cancelling_Dialog ''defaultPath'' = config example_Dialog ''defaultPath''
   \<and> userDesktopPath cancelling_Dialog = userDesktopPath example_Dialog
   \<and> fst (getDialogOptions (\<lambda>exts. exts) cancelling_Dialog ''save'' [''name'' \<mapsto> ''a'', ''fileType'' \<mapsto> ''dmn''])
       = fst (getDialogOptions (\<lambda>exts. exts) example_Dialog ''save'' [''name'' \<mapsto> ''a'', ''fileType'' \<mapsto> ''dmn''])
   \<and> config (snd (getDialogOptions (\<lambda>exts. exts) example_Dialog ''save'' [''name'' \<mapsto> ''a'', ''fileType'' \<mapsto> ''dmn'']))
       = Map.empty"
proof -
  have e: "config cancelling_Dialog ''defaultPath'' = config example_Dialog ''defaultPath''"
    "userDesktopPath cancelling_Dialog = userDesktopPath example_Dialog"
    "config example_Dialog = Map.empty"
    by (simp_all add: example_Dialog_def cancelling_Dialog_def new_Dialog_def)
  let ?opts = "[''name'' \<mapsto> ''a'', ''fileType'' \<mapsto> ''dmn'']"
  from getDialogOptions_no_side_effects [of "\<lambda>exts. exts" example_Dialog "''save''" ?opts]
  have c: "config (snd (getDialogOptions (\<lambda>exts. exts) example_Dialog ''save'' ?opts)) = config example_Dialog"
    and a: "\<forall>that. config that ''defaultPath'' = config example_Dialog ''defaultPath''
          \<and> userDesktopPath that = userDesktopPath example_Dialog
        \<longrightarrow> fst (getDialogOptions (\<lambda>exts. exts) that ''save'' ?opts)
            = fst (getDialogOptions (\<lambda>exts. exts) example_Dialog ''save'' ?opts)"
    by blast+
  from a e(1,2)
  have "fst (getDialogOptions (\<lambda>exts. exts) cancelling_Dialog ''save'' ?opts)
            = fst (getDialogOptions (\<lambda>exts. exts) example_Dialog ''save'' ?opts)"
    by blast
  with c e show ?thesis by (intro conjI) simp_all
qed

text \<open>
  C3. Stated on the answer of the platform, the claim holds wherever the guard of line 333
  does not fire: a save or an open that returns a selection stores its directory
  (\<open>showDialog_save_stores\<close>, \<open>showDialog_open_stores\<close>, \<open>save_then_open\<close>), a cancelled
  picker and every other request type leave the store as it was
  (\<open>showDialog_cancelled_keeps\<close>, \<open>showDialog_other_kinds_keep\<close>). It fails on that guard. The instance \<open>revisiting_Dialog\<close> has once saved
  \<^verbatim>\<open>/tmp/a/x.bpmn\<close>, so its \<^verbatim>\<open>this.defaultPath\<close> and the store hold the directory
  \<^verbatim>\<open>/tmp/a\<close>. Its next save dialog returns the path \<^verbatim>\<open>/tmp/a\<close>: the request type is
  \<^verbatim>\<open>save\<close> and the result is truthy, but line 333 compares the stored directory with the
  chosen path itself, finds them equal and returns before \<^verbatim>\<open>config.set\<close>, so the store
  still holds \<^verbatim>\<open>/tmp/a\<close> and not the directory \<^verbatim>\<open>/tmp\<close> of the chosen path.
\<close>

theorem showDialog_keeps_stale_defaultPath:
  "this_defaultPath revisiting_Dialog = Some ''/tmp/a''
   \<and> config revisiting_Dialog ''defaultPath'' = Some ''/tmp/a''
   \<and> fst (showDialog (\<lambda>exts. exts) posix_dirname revisiting_Dialog ''save''
          [''name'' \<mapsto> ''x.bpmn'', ''fileType'' \<mapsto> ''bpmn'']) = Inr (Str ''/tmp/a'')
   \<and> truthy (Str ''/tmp/a'')
   \<and> posix_dirname ''/tmp/a'' = ''/tmp''
   \<and> config (snd (showDialog (\<lambda>exts. exts) posix_dirname revisiting_Dialog ''save''
          [''name'' \<mapsto> ''x.bpmn'', ''fileType'' \<mapsto> ''bpmn''])) ''defaultPath'' = Some ''/tmp/a''"
proof -
  let ?opts = "[''name'' \<mapsto> ''x.bpmn'', ''fileType'' \<mapsto> ''bpmn'']"
  let ?built = "empty_object
       \<lparr>title := Some (''Save '' @ ''x.bpmn'' @ '' as..''),
        defaultPath := Some (stored_defaultPath revisiting_Dialog @ ''/'' @ ''x.bpmn''),
        filters := Some [''bpmn'', ''all'']\<rparr> :: string list dialog_options"
  have g: "fst (getDialogOptions (\<lambda>exts. exts) revisiting_Dialog ''save'' ?opts) = Inr (Built ?built)"
    by (rule getDialogOptions_save) simp_all
  have p: "showSaveDialog (dialog revisiting_Dialog) (Built (handed_over ?built)) = Some ''/tmp/a''"
    by (simp add: revisiting_Dialog_state revisiting_dialog_def handed_over_def empty_object_def
        stored_defaultPath_def config_get_def)
  let ?this2 = "revisiting_Dialog\<lparr>dialogs := Some (new_dialogs (\<lambda>exts. exts) (stored_defaultPath revisiting_Dialog)),
                      calls := calls revisiting_Dialog @ [ShowSaveDialog (Built (handed_over ?built))]\<rparr>"
  have u: "setDefaultPath posix_dirname ?this2 (Str ''/tmp/a'') = (Inr (Some ''/tmp/a''), ?this2)"
    by (rule setDefaultPath_guard) (simp_all add: revisiting_Dialog_state)
  have s: "showDialog (\<lambda>exts. exts) posix_dirname revisiting_Dialog ''save'' ?opts = (Inr (Str ''/tmp/a''), ?this2)"
    using p u by (simp add: showDialog_save [OF g] Let_def)
  show ?thesis
    by (simp add: s revisiting_Dialog_state posix_dirname_examples)
qed

text \<open>
  C10. The same guard, at \<^verbatim>\<open>setDefaultPath\<close> itself: \<open>revisiting_Dialog\<close> holds
  \<^verbatim>\<open>/tmp/a\<close> in \<^verbatim>\<open>this.defaultPath\<close>; given an array whose first filename is \<^verbatim>\<open>/tmp/a\<close>,
  \<^verbatim>\<open>setDefaultPath\<close> returns that string and stores nothing, so the store holds
  \<^verbatim>\<open>/tmp/a\<close> and not the directory \<^verbatim>\<open>/tmp\<close> of the first filename. On an instance that
  has chosen nothing yet, the same array stores \<^verbatim>\<open>/tmp\<close>.
\<close>

theorem setDefaultPath_skips_first_filename:
  "this_defaultPath revisiting_Dialog = Some ''/tmp/a''
   \<and> config revisiting_Dialog ''defaultPath'' = Some ''/tmp/a''
   \<and> setDefaultPath posix_dirname revisiting_Dialog (Arr [''/tmp/a'', ''/srv/other/b.dmn''])
       = (Inr (Some ''/tmp/a''), revisiting_Dialog)
   \<and> posix_dirname ''/tmp/a'' = ''/tmp''
   \<and> config (snd (setDefaultPath posix_dirname example_Dialog (Arr [''/tmp/a'', ''/srv/other/b.dmn'']))) ''defaultPath''
       = Some ''/tmp''"
proof -
  have a: "setDefaultPath posix_dirname revisiting_Dialog (Arr [''/tmp/a'', ''/srv/other/b.dmn''])
     = (Inr (Some ''/tmp/a''), revisiting_Dialog)"
    by (rule setDefaultPath_guard) (simp_all add: revisiting_Dialog_state)
  have "this_defaultPath example_Dialog \<noteq> Some ''/tmp/a'' \<or> ''/tmp/a'' = []"
    by (simp add: example_Dialog_def new_Dialog_def)
  from setDefaultPath_update [of "Arr [''/tmp/a'', ''/srv/other/b.dmn'']" "''/tmp/a''" example_Dialog posix_dirname, OF _ this]
  have b: "config (snd (setDefaultPath posix_dirname example_Dialog (Arr [''/tmp/a'', ''/srv/other/b.dmn'']))) ''defaultPath''
       = Some ''/tmp''"
    by (simp add: posix_dirname_examples)
  from a b show ?thesis by (simp add: revisiting_Dialog_state posix_dirname_examples)
qed

end
